theory Spec2Isabelle
  imports Main
begin

section \<open>Data model\<close>

text \<open>
  A nested structure (\<open>tf.nest\<close>) is a tree of named fields whose leaves carry the
  payload: tensors for a batch, tensor specs for a spec. Fields are kept in the order
  in which the structure is traversed.
\<close>

datatype 'a nest = Leaf 'a | Node "(string \<times> 'a nest) list"

text \<open>
  A tensor is a scalar or an array of sub-tensors; the elements of the outermost array
  are the rows along the leading dimension.
\<close>

datatype 'a tensor = Scalar 'a | Arr "'a tensor list"

datatype error =
    IndexError
  | ValueError string
  | InvalidArgumentError

datatype step_type = FIRST | MID | LAST

record 'x time_step =
  ts_step_type :: 'x
  ts_reward :: 'x
  ts_discount :: 'x
  ts_observation :: 'x

record 'sp tf_policy =
  info_spec :: "'sp nest"

record ('a, 'i) trajectory =
  step_type :: step_type
  observation :: "'a tensor nest"
  action :: "'a tensor nest"
  policy_info :: 'i
  next_step_type :: step_type
  reward :: "'a tensor nest"
  discount :: "'a tensor nest"

text \<open>
  The policy info recorded by the mixture policy: the index of the sub-agent that acted
  (key \<open>MIXTURE_AGENT_ID\<close>) and that sub-agent's own policy info (key
  \<open>SUBPOLICY_INFO\<close>).
\<close>

record 'a mixture_info =
  mixture_agent_id :: "int tensor nest"
  subpolicy_info :: "'a tensor nest"

record 'l loss_info =
  loss :: 'l
  extra :: unit

text \<open>
  A sub-agent. Its \<open>train\<close> is opaque: it receives a trajectory and the state of the
  world (its own variables and anything it shares), and returns a loss and the new state.
\<close>

record ('sp, 'a, 'l, 'w) agent =
  time_step_spec :: "'sp nest time_step"
  action_spec :: "'sp nest"
  policy :: "'sp tf_policy"
  collect_policy :: "'sp tf_policy"
  train :: "('a, 'a tensor nest) trajectory \<Rightarrow> 'w \<Rightarrow> 'l loss_info \<times> 'w"

record ('m, 'sp) mixture_policy =
  mp_mixture_weights :: "'m list"
  mp_policies :: "'sp tf_policy list"

record ('m, 'sp, 'a, 'l, 'w) static_mixture_agent =
  sma_time_step_spec :: "'sp nest time_step"
  sma_action_spec :: "'sp nest"
  sma_policy :: "('m, 'sp) mixture_policy"
  sma_collect_policy :: "('m, 'sp) mixture_policy"
  sma_original_info_spec :: "'sp nest"
  sma_agents :: "('sp, 'a, 'l, 'w) agent list"
  sma_num_agents :: nat
  sma_mixture_weights :: "'m list"

section \<open>Construction: \<open>StaticMixtureAgent.__init__\<close>\<close>

definition msg_action :: string where
  "msg_action = ''Inconsistent action specs.''"

definition msg_time_step :: string where
  "msg_time_step = ''Inconsistent time step specs.''"

definition msg_info :: string where
  "msg_info = ''Inconsistent info specs.''"

definition msg_length :: string where
  "msg_length = ''`mixture_weights` and `agents` must have equal length.''"

text \<open>The loop \<open>for agent in agents[1:]\<close>, with \<open>error_message\<close> as accumulator.\<close>

fun check_agents ::
  "'sp nest time_step \<Rightarrow> 'sp nest \<Rightarrow> 'sp nest \<Rightarrow> ('sp, 'a, 'l, 'w) agent list \<Rightarrow>
   string option \<Rightarrow> string option" where
  "check_agents tss acs ifs [] error_message = error_message"
| "check_agents tss acs ifs (agent # rest) error_message =
     (let m1 = (if acs \<noteq> action_spec agent then Some msg_action else error_message);
          m2 = (if tss \<noteq> time_step_spec agent then Some msg_time_step else m1);
          m3 = (if ifs \<noteq> info_spec (policy agent) then Some msg_info else m2)
      in check_agents tss acs ifs rest m3)"

text \<open>
  Modelled from the spec: \<open>MixturePolicy(mixture_weights, policies)\<close> is the composed
  selection policy built from the weights and the per-agent collect policies.
\<close>

definition MixturePolicy :: "'m list \<Rightarrow> 'sp tf_policy list \<Rightarrow> ('m, 'sp) mixture_policy" where
  "MixturePolicy mixture_weights policies =
     \<lparr>mp_mixture_weights = mixture_weights, mp_policies = policies\<rparr>"

definition StaticMixtureAgent_init ::
  "'m list \<Rightarrow> ('sp, 'a, 'l, 'w) agent list \<Rightarrow> error + ('m, 'sp, 'a, 'l, 'w) static_mixture_agent"
where
  "StaticMixtureAgent_init mixture_weights agents =
     (case agents of
        [] \<Rightarrow> Inl IndexError
      | agent0 # others \<Rightarrow>
          (let tss = time_step_spec agent0;
               acs = action_spec agent0;
               original_info_spec = info_spec (policy agent0);
               m = check_agents tss acs original_info_spec others None;
               error_message =
                 (if length mixture_weights \<noteq> length agents then Some msg_length else m)
           in case error_message of
                Some msg \<Rightarrow> Inl (ValueError msg)
              | None \<Rightarrow>
                  (let policies = map collect_policy agents;
                       pol = MixturePolicy mixture_weights policies
                   in Inr \<lparr>sma_time_step_spec = tss, sma_action_spec = acs,
                            sma_policy = pol, sma_collect_policy = pol,
                            sma_original_info_spec = original_info_spec,
                            sma_agents = agents, sma_num_agents = length agents,
                            sma_mixture_weights = mixture_weights\<rparr>)))"

section \<open>Errors as values\<close>

definition ebind :: "error + 'a \<Rightarrow> ('a \<Rightarrow> error + 'b) \<Rightarrow> error + 'b" where
  "ebind m f = (case m of Inl e \<Rightarrow> Inl e | Inr x \<Rightarrow> f x)"

text \<open>A list comprehension whose elements may raise: the first error wins.\<close>

fun sequence_err :: "(error + 'a) list \<Rightarrow> error + 'a list" where
  "sequence_err [] = Inr []"
| "sequence_err (m # ms) =
     (case m of Inl e \<Rightarrow> Inl e
      | Inr x \<Rightarrow> (case sequence_err ms of Inl e \<Rightarrow> Inl e | Inr xs \<Rightarrow> Inr (x # xs)))"

text \<open>Python's \<open>xs[k]\<close> for a non-negative index.\<close>

definition getitem :: "'a list \<Rightarrow> nat \<Rightarrow> error + 'a" where
  "getitem xs k = (if k < length xs then Inr (xs ! k) else Inl IndexError)"

section \<open>The tensor substrate\<close>

text \<open>
  Modelled from the spec: \<open>tf.nest.flatten\<close> flattens a nested structure to the ordered
  list of its leaves.
\<close>

fun flatten :: "'a nest \<Rightarrow> 'a list" where
  "flatten (Leaf x) = [x]"
| "flatten (Node fs) = concat (map (\<lambda>p. flatten (snd p)) fs)"

text \<open>
  Modelled from the spec: \<open>tf.nest.pack_sequence_as\<close> re-assembles a flat list of leaves
  into the tree shape of a template structure. \<open>pack\<close> walks the template and consumes
  the list; the number of leaves must be that of the template.
\<close>

fun pack :: "'b nest \<Rightarrow> 'a list \<Rightarrow> ('a nest \<times> 'a list) option"
  and pack_fields ::
    "(string \<times> 'b nest) list \<Rightarrow> 'a list \<Rightarrow> ((string \<times> 'a nest) list \<times> 'a list) option" where
  "pack (Leaf _) [] = None"
| "pack (Leaf _) (x # xs) = Some (Leaf x, xs)"
| "pack (Node fs) xs =
     (case pack_fields fs xs of None \<Rightarrow> None | Some (fs', rest) \<Rightarrow> Some (Node fs', rest))"
| "pack_fields [] xs = Some ([], xs)"
| "pack_fields (f # fs) xs =
     (case pack (snd f) xs of
        None \<Rightarrow> None
      | Some (t', rest) \<Rightarrow>
          (case pack_fields fs rest of
             None \<Rightarrow> None
           | Some (fs', rest') \<Rightarrow> Some ((fst f, t') # fs', rest')))"

definition pack_sequence_as :: "'b nest \<Rightarrow> 'a list \<Rightarrow> error + 'a nest" where
  "pack_sequence_as structure flat_sequence =
     (case pack structure flat_sequence of
        Some (t, []) \<Rightarrow> Inr t
      | _ \<Rightarrow> Inl (ValueError ''Could not pack sequence.''))"

text \<open>The tree shape of a structure: the structure with its leaves stripped.\<close>

definition tree_shape :: "'a nest \<Rightarrow> unit nest" where
  "tree_shape t = map_nest (\<lambda>_. ()) t"

text \<open>
  Modelled from the spec: the labels are an integer array. A nested structure passed
  where a tensor is expected is that tensor when it is a single leaf, and is refused
  otherwise.
\<close>

definition as_tensor :: "'a tensor nest \<Rightarrow> error + 'a tensor" where
  "as_tensor t =
     (case t of Leaf x \<Rightarrow> Inr x | Node _ \<Rightarrow> Inl (ValueError ''Not a tensor.''))"

text \<open>
  Modelled from the spec: \<open>tf.dynamic_partition\<close> is the row-wise partition by label.
  The labels are an integer array with one label per row of the data; output \<open>k\<close> holds
  exactly the rows whose label is \<open>k\<close>, in their original relative order. A label
  outside \<open>[0, num_partitions)\<close> or a length mismatch is an error.
\<close>

fun labels_of :: "int tensor list \<Rightarrow> int list option" where
  "labels_of [] = Some []"
| "labels_of (Scalar p # ts) = map_option ((#) p) (labels_of ts)"
| "labels_of (Arr _ # ts) = None"

definition dynamic_partition ::
  "'a tensor \<Rightarrow> int tensor nest \<Rightarrow> nat \<Rightarrow> error + 'a tensor list" where
  "dynamic_partition data partitions num_partitions =
     ebind (as_tensor partitions) (\<lambda>partitions_tensor.
       case (data, partitions_tensor) of
         (Arr rows, Arr ps) \<Rightarrow>
           (case labels_of ps of
              None \<Rightarrow> Inl InvalidArgumentError
            | Some labels \<Rightarrow>
                if length rows \<noteq> length labels then Inl InvalidArgumentError
                else if \<exists>p \<in> set labels. p < 0 \<or> int num_partitions \<le> p
                  then Inl InvalidArgumentError
                else Inr (map (\<lambda>k. Arr (map fst (filter (\<lambda>rp. snd rp = int k)
                                                   (zip rows labels))))
                           [0..<num_partitions]))
       | _ \<Rightarrow> Inl InvalidArgumentError)"

text \<open>
  Python's \<open>zip(*xss)\<close>: the transpose, as long as the shortest list; with no list at
  all it is empty.
\<close>

definition zip_star :: "'a list list \<Rightarrow> 'a list list" where
  "zip_star xss =
     (case xss of
        [] \<Rightarrow> []
      | xs # rest \<Rightarrow>
          map (\<lambda>i. map (\<lambda>ys. ys ! i) xss) [0..<fold min (map length rest) (length xs)])"

section \<open>\<open>_dynamic_partition_of_nested_tensors\<close>\<close>

definition dynamic_partition_of_nested_tensors ::
  "'a tensor nest \<Rightarrow> int tensor nest \<Rightarrow> nat \<Rightarrow> error + 'a tensor nest list" where
  "dynamic_partition_of_nested_tensors nested_tensor partitions num_partitions =
     (let flattened_tensors = flatten nested_tensor
      in ebind (sequence_err
                  (map (\<lambda>t. dynamic_partition t partitions num_partitions) flattened_tensors))
           (\<lambda>partitioned_flat_tensors.
              let list_of_partitions = zip_star partitioned_flat_tensors
              in sequence_err (map (\<lambda>i. pack_sequence_as nested_tensor i) list_of_partitions)))"

section \<open>Batch utilities and trajectories\<close>

text \<open>
  Modelled from the spec: \<open>nest_utils.flatten_multi_batched_nested_tensors\<close> flattens the
  outer two batch dimensions of every leaf into one. The tensors must have the nested
  shape of the specs, and every leaf must have two outer dimensions. (The second value
  returned by the source function, the batch dimensions, is dropped by the caller.)
\<close>

fun rows_of :: "'a tensor list \<Rightarrow> 'a tensor list option" where
  "rows_of [] = Some []"
| "rows_of (Arr rs # bs) = map_option ((@) rs) (rows_of bs)"
| "rows_of (Scalar _ # bs) = None"

definition flatten_outer_dims :: "'a tensor \<Rightarrow> error + 'a tensor" where
  "flatten_outer_dims t =
     (case t of
        Scalar _ \<Rightarrow> Inl (ValueError ''Incompatible shapes.'')
      | Arr bs \<Rightarrow>
          (case rows_of bs of
             None \<Rightarrow> Inl (ValueError ''Incompatible shapes.'')
           | Some rs \<Rightarrow> Inr (Arr rs)))"

definition flatten_multi_batched_nested_tensors ::
  "'a tensor nest \<Rightarrow> 'sp nest \<Rightarrow> error + 'a tensor nest" where
  "flatten_multi_batched_nested_tensors tensors specs =
     (if tree_shape tensors \<noteq> tree_shape specs
      then Inl (ValueError ''The two structures do not match.'')
      else ebind (sequence_err (map flatten_outer_dims (flatten tensors)))
             (\<lambda>out_tensors. pack_sequence_as tensors out_tensors))"

text \<open>
  Modelled from the spec: \<open>nest_utils.batch_nested_tensors\<close> without specs re-batches a
  structure by giving every leaf one new leading dimension, of size one.
\<close>

definition batch_nested_tensors :: "'a tensor nest \<Rightarrow> 'a tensor nest" where
  "batch_nested_tensors t = map_nest (\<lambda>x. Arr [x]) t"

text \<open>
  Modelled from the spec: \<open>tf.zeros_like\<close> gives all-zero values shaped like its
  argument.
\<close>

definition zeros_like :: "('a::zero) tensor nest \<Rightarrow> 'a tensor nest" where
  "zeros_like t = map_nest (map_tensor (\<lambda>_. 0)) t"

text \<open>
  Modelled from the spec: \<open>trajectory.single_step\<close> builds the record of a single-step
  transition, from a first step to a last one.
\<close>

definition single_step ::
  "'a tensor nest \<Rightarrow> 'a tensor nest \<Rightarrow> 'i \<Rightarrow> 'a tensor nest \<Rightarrow> 'a tensor nest \<Rightarrow>
   ('a, 'i) trajectory" where
  "single_step obs act info rew disc =
     \<lparr>step_type = FIRST, observation = obs, action = act, policy_info = info,
      next_step_type = LAST, reward = rew, discount = disc\<rparr>"

section \<open>Training: \<open>StaticMixtureAgent._train\<close>\<close>

text \<open>The loop \<open>for k in range(self._num_agents)\<close>, with \<open>loss\<close> as accumulator.\<close>

fun train_loop ::
  "('sp, 'a::zero, 'l::plus, 'w) agent list \<Rightarrow> 'a tensor nest list \<Rightarrow> 'a tensor nest list \<Rightarrow>
   'a tensor nest list \<Rightarrow> 'a tensor nest list \<Rightarrow> nat list \<Rightarrow> 'l \<Rightarrow> 'w \<Rightarrow> error + ('l \<times> 'w)"
where
  "train_loop agents observations actions infos rewards [] l w = Inr (l, w)"
| "train_loop agents observations actions infos rewards (k # ks) l w =
     ebind (getitem observations k) (\<lambda>obs.
     ebind (getitem actions k) (\<lambda>act.
     ebind (getitem infos k) (\<lambda>info.
     ebind (getitem rewards k) (\<lambda>rew.
       let experience = single_step obs act info rew (zeros_like rew)
       in ebind (getitem agents k) (\<lambda>agent.
            let (li, w') = train agent experience w
            in train_loop agents observations actions infos rewards ks (l + loss li) w')))))"

definition StaticMixtureAgent_train ::
  "('m, 'sp, 'a::zero, 'l::{zero,plus}, 'w) static_mixture_agent \<Rightarrow>
   ('a, 'a mixture_info) trajectory \<Rightarrow> 'x option \<Rightarrow> 'w \<Rightarrow> error + ('l loss_info \<times> 'w)" where
  "StaticMixtureAgent_train self experience weights w =
     ebind (flatten_multi_batched_nested_tensors (reward experience)
              (ts_reward (sma_time_step_spec self))) (\<lambda>rew.
     ebind (flatten_multi_batched_nested_tensors (action experience)
              (sma_action_spec self)) (\<lambda>act.
     ebind (flatten_multi_batched_nested_tensors (observation experience)
              (ts_observation (sma_time_step_spec self))) (\<lambda>obs.
     ebind (flatten_multi_batched_nested_tensors (mixture_agent_id (policy_info experience))
              (ts_reward (sma_time_step_spec self))) (\<lambda>policy_choice.
     ebind (flatten_multi_batched_nested_tensors (subpolicy_info (policy_info experience))
              (sma_original_info_spec self)) (\<lambda>original_infos.
     ebind (dynamic_partition_of_nested_tensors original_infos policy_choice
              (sma_num_agents self)) (\<lambda>infos.
       let partitioned_nested_infos = map batch_nested_tensors infos
       in
     ebind (dynamic_partition_of_nested_tensors rew policy_choice
              (sma_num_agents self)) (\<lambda>rews.
       let partitioned_nested_rewards = map batch_nested_tensors rews
       in
     ebind (dynamic_partition_of_nested_tensors act policy_choice
              (sma_num_agents self)) (\<lambda>acts.
       let partitioned_nested_actions = map batch_nested_tensors acts
       in
     ebind (dynamic_partition_of_nested_tensors obs policy_choice
              (sma_num_agents self)) (\<lambda>obss.
       let partitioned_nested_observations = map batch_nested_tensors obss
       in
     ebind (train_loop (sma_agents self) partitioned_nested_observations
              partitioned_nested_actions partitioned_nested_infos
              partitioned_nested_rewards [0..<sma_num_agents self] 0 w) (\<lambda>(l, w').
       Inr (\<lparr>loss = l, extra = ()\<rparr>, w')))))))))))"

section \<open>The validation checks, in evaluation order\<close>

text \<open>
  The checks of the constructor as a list of pairs (failed, message): for each agent after
  the first the three spec comparisons, then the length check.
\<close>

definition agent_checks ::
  "'sp nest time_step \<Rightarrow> 'sp nest \<Rightarrow> 'sp nest \<Rightarrow> ('sp, 'a, 'l, 'w) agent \<Rightarrow> (bool \<times> string) list" where
  "agent_checks tss acs ifs agent =
     [(acs \<noteq> action_spec agent, msg_action),
      (tss \<noteq> time_step_spec agent, msg_time_step),
      (ifs \<noteq> info_spec (policy agent), msg_info)]"

definition validation_checks ::
  "'m list \<Rightarrow> ('sp, 'a, 'l, 'w) agent list \<Rightarrow> (bool \<times> string) list" where
  "validation_checks mixture_weights agents =
     (case agents of
        [] \<Rightarrow> []
      | agent0 # others \<Rightarrow>
          concat (map (agent_checks (time_step_spec agent0) (action_spec agent0)
                         (info_spec (policy agent0))) others))
     @ [(length mixture_weights \<noteq> length agents, msg_length)]"

definition failing_checks :: "'m list \<Rightarrow> ('sp, 'a, 'l, 'w) agent list \<Rightarrow> string list" where
  "failing_checks mixture_weights agents =
     map snd (filter fst (validation_checks mixture_weights agents))"

section \<open>Rows and groups\<close>

text \<open>The rows of a tensor along its leading dimension.\<close>

definition leading_rows :: "'a tensor \<Rightarrow> 'a tensor list" where
  "leading_rows t = (case t of Scalar _ \<Rightarrow> [] | Arr rows \<Rightarrow> rows)"

text \<open>
  The indices of the rows whose label is \<open>k\<close>, in ascending order, and the tensor made of
  the rows of a tensor at given indices.
\<close>

definition group_rows :: "int list \<Rightarrow> nat \<Rightarrow> nat list" where
  "group_rows labels k = filter (\<lambda>j. labels ! j = int k) [0..<length labels]"

definition take_rows :: "nat list \<Rightarrow> 'a tensor \<Rightarrow> 'a tensor" where
  "take_rows js t = Arr (map (\<lambda>j. leading_rows t ! j) js)"

text \<open>The number of rows of a group: that of its first leaf.\<close>

definition row_count :: "'a tensor nest \<Rightarrow> nat" where
  "row_count g = (case flatten g of [] \<Rightarrow> 0 | leaf # _ \<Rightarrow> length (leading_rows leaf))"

section \<open>Valid batches and routed sub-batches\<close>

text \<open>
  A leaf of a batch has two outer batch dimensions; \<open>flat_rows\<close> are its rows once the
  two are merged into one.
\<close>

definition two_batch_dims :: "'a tensor \<Rightarrow> bool" where
  "two_batch_dims t = (case t of Scalar _ \<Rightarrow> False | Arr bs \<Rightarrow> rows_of bs \<noteq> None)"

definition flat_rows :: "'a tensor \<Rightarrow> 'a tensor list" where
  "flat_rows t =
     (case t of
        Scalar _ \<Rightarrow> []
      | Arr bs \<Rightarrow> (case rows_of bs of None \<Rightarrow> [] | Some rs \<Rightarrow> rs))"

text \<open>The recorded sub-agent index of every row of a batch, in row order.\<close>

definition batch_labels :: "('a, 'a mixture_info) trajectory \<Rightarrow> int list option" where
  "batch_labels e =
     (case mixture_agent_id (policy_info e) of
        Leaf t \<Rightarrow> if two_batch_dims t then labels_of (flat_rows t) else None
      | Node _ \<Rightarrow> None)"

text \<open>
  A field of a valid batch has the nested shape of its spec and at least one leaf, and
  each of its leaves has two batch dimensions holding \<open>m\<close> rows in all.
\<close>

definition valid_field :: "'a tensor nest \<Rightarrow> 'sp nest \<Rightarrow> nat \<Rightarrow> bool" where
  "valid_field x spec m \<longleftrightarrow>
     tree_shape x = tree_shape spec \<and> flatten x \<noteq> []
     \<and> (\<forall>leaf \<in> set (flatten x). two_batch_dims leaf \<and> length (flat_rows leaf) = m)"

text \<open>
  A valid batch: the recorded indices are one integer per row, each the index of a
  sub-agent, shaped like the reward; reward, action, observation and sub-policy info are
  valid fields with one row per recorded index.
\<close>

definition valid_batch ::
  "('m, 'sp, 'a, 'l, 'w) static_mixture_agent \<Rightarrow> ('a, 'a mixture_info) trajectory \<Rightarrow>
   int list \<Rightarrow> bool" where
  "valid_batch self e labels \<longleftrightarrow>
     batch_labels e = Some labels
     \<and> tree_shape (mixture_agent_id (policy_info e))
         = tree_shape (ts_reward (sma_time_step_spec self))
     \<and> (\<forall>p \<in> set labels. 0 \<le> p \<and> p < int (sma_num_agents self))
     \<and> valid_field (reward e) (ts_reward (sma_time_step_spec self)) (length labels)
     \<and> valid_field (action e) (sma_action_spec self) (length labels)
     \<and> valid_field (observation e) (ts_observation (sma_time_step_spec self)) (length labels)
     \<and> valid_field (subpolicy_info (policy_info e)) (sma_original_info_spec self)
         (length labels)"

text \<open>
  The sub-batch of a field routed to sub-agent \<open>k\<close>: in every leaf, the rows whose
  recorded index is \<open>k\<close>, in their original order, under one leading batch dimension.
\<close>

definition routed_group :: "int list \<Rightarrow> nat \<Rightarrow> 'a tensor nest \<Rightarrow> 'a tensor nest" where
  "routed_group labels k x =
     map_nest (\<lambda>leaf. Arr [take_rows (group_rows labels k) (Arr (flat_rows leaf))]) x"

definition routed_experience ::
  "int list \<Rightarrow> nat \<Rightarrow> ('a::zero, 'a mixture_info) trajectory \<Rightarrow> ('a, 'a tensor nest) trajectory"
where
  "routed_experience labels k e =
     single_step (routed_group labels k (observation e)) (routed_group labels k (action e))
       (routed_group labels k (subpolicy_info (policy_info e)))
       (routed_group labels k (reward e))
       (zeros_like (routed_group labels k (reward e)))"

text \<open>
  Training calls made one after the other: each call trains one sub-agent on one
  trajectory in the state left by the calls before it. The result is the list of the
  returned losses and the final state.
\<close>

fun run_calls ::
  "(('sp, 'a, 'l, 'w) agent \<times> ('a, 'a tensor nest) trajectory) list \<Rightarrow> 'w \<Rightarrow>
   'l loss_info list \<times> 'w" where
  "run_calls [] w = ([], w)"
| "run_calls (c # calls) w =
     (let (li, w') = train (fst c) (snd c) w;
          (lis, w'') = run_calls calls w'
      in (li # lis, w''))"

text \<open>
  The result of training from the losses returned by the calls: their plain sum, each
  added in turn to a sum that starts at zero.
\<close>

definition finish :: "'l loss_info list \<times> 'w \<Rightarrow> ('l::{zero,plus}) loss_info \<times> 'w" where
  "finish r = (\<lparr>loss = foldl (+) 0 (map loss (fst r)), extra = ()\<rparr>, snd r)"

text \<open>The shape of a tensor, and of a structure of tensors: its values stripped.\<close>

definition tensor_shapes :: "'a tensor nest \<Rightarrow> unit tensor nest" where
  "tensor_shapes x = map_nest (map_tensor (\<lambda>_. ())) x"

text \<open>The values held by a tensor, and by a structure of tensors.\<close>

fun tensor_values :: "'a tensor \<Rightarrow> 'a list" where
  "tensor_values (Scalar v) = [v]"
| "tensor_values (Arr ts) = concat (map tensor_values ts)"

definition nest_values :: "'a tensor nest \<Rightarrow> 'a list" where
  "nest_values x = concat (map tensor_values (flatten x))"

section \<open>Recording sub-agents\<close>

text \<open>
  A sub-agent that behaves like a given one and appends to a log, kept beside the
  state, its own index and the trajectory it was trained on.
\<close>

definition recording ::
  "nat \<Rightarrow> ('sp, 'a, 'l, 'w) agent \<Rightarrow>
   ('sp, 'a, 'l, 'w \<times> (nat \<times> ('a, 'a tensor nest) trajectory) list) agent" where
  "recording k agent =
     \<lparr>time_step_spec = time_step_spec agent, action_spec = action_spec agent,
      policy = policy agent, collect_policy = collect_policy agent,
      train = (\<lambda>e wl. let (li, w') = train agent e (fst wl)
                       in (li, (w', snd wl @ [(k, e)])))\<rparr>"

definition recording_agents ::
  "('sp, 'a, 'l, 'w) agent list \<Rightarrow>
   ('sp, 'a, 'l, 'w \<times> (nat \<times> ('a, 'a tensor nest) trajectory) list) agent list" where
  "recording_agents agents = map (\<lambda>k. recording k (agents ! k)) [0..<length agents]"

definition recording_coordinator ::
  "('m, 'sp, 'a, 'l, 'w) static_mixture_agent \<Rightarrow>
   ('m, 'sp, 'a, 'l, 'w \<times> (nat \<times> ('a, 'a tensor nest) trajectory) list) static_mixture_agent"
where
  "recording_coordinator self =
     \<lparr>sma_time_step_spec = sma_time_step_spec self, sma_action_spec = sma_action_spec self,
      sma_policy = sma_policy self, sma_collect_policy = sma_collect_policy self,
      sma_original_info_spec = sma_original_info_spec self,
      sma_agents = recording_agents (sma_agents self),
      sma_num_agents = sma_num_agents self,
      sma_mixture_weights = sma_mixture_weights self\<rparr>"

section \<open>Example inputs\<close>

text \<open>
  A sub-agent whose specs are single leaves. Its loss is a constant plus the sum of the
  rewards it is trained on, and it appends the observations it sees to the state.
\<close>

definition example_agent :: "int \<Rightarrow> int \<Rightarrow> (int, int, int, int list) agent" where
  "example_agent spec c =
     \<lparr>time_step_spec = \<lparr>ts_step_type = Leaf spec, ts_reward = Leaf spec,
                         ts_discount = Leaf spec, ts_observation = Leaf spec\<rparr>,
      action_spec = Leaf spec, policy = \<lparr>info_spec = Leaf spec\<rparr>,
      collect_policy = \<lparr>info_spec = Leaf spec\<rparr>,
      train = (\<lambda>e w. (\<lparr>loss = c + sum_list (nest_values (reward e)), extra = ()\<rparr>,
                       w @ nest_values (observation e)))\<rparr>"

text \<open>A coordinator of sub-agents with constants \<open>3\<close>, \<open>4\<close>, and so on.\<close>

definition example_coordinator ::
  "(int, int, int, int list) agent list \<Rightarrow> (int, int, int, int, int list) static_mixture_agent"
where
  "example_coordinator agents =
     \<lparr>sma_time_step_spec = \<lparr>ts_step_type = Leaf 0, ts_reward = Leaf 0,
                             ts_discount = Leaf 0, ts_observation = Leaf 0\<rparr>,
      sma_action_spec = Leaf 0,
      sma_policy = MixturePolicy (map (\<lambda>_. 1) agents) (map collect_policy agents),
      sma_collect_policy = MixturePolicy (map (\<lambda>_. 1) agents) (map collect_policy agents),
      sma_original_info_spec = Leaf 0,
      sma_agents = agents, sma_num_agents = length agents,
      sma_mixture_weights = map (\<lambda>_. 1) agents\<rparr>"

text \<open>
  A batch of four transitions, two by two, and the sub-agent recorded for each; in the
  first the sub-agents alternate, in the second the first sub-agent made every choice.
\<close>

definition example_batch :: "int tensor nest \<Rightarrow> (int, int mixture_info) trajectory" where
  "example_batch ids =
     \<lparr>step_type = MID,
      observation = Leaf (Arr [Arr [Scalar 1, Scalar 2], Arr [Scalar 3, Scalar 4]]),
      action = Leaf (Arr [Arr [Scalar 0, Scalar 1], Arr [Scalar 1, Scalar 0]]),
      policy_info = \<lparr>mixture_agent_id = ids,
                      subpolicy_info = Leaf (Arr [Arr [Scalar 5, Scalar 6],
                                                 Arr [Scalar 7, Scalar 8]])\<rparr>,
      next_step_type = MID,
      reward = Leaf (Arr [Arr [Scalar 10, Scalar 20], Arr [Scalar 30, Scalar 40]]),
      discount = Leaf (Arr [Arr [Scalar 1, Scalar 1], Arr [Scalar 1, Scalar 1]])\<rparr>"

definition alternating_ids :: "int tensor nest" where
  "alternating_ids = Leaf (Arr [Arr [Scalar 0, Scalar 1], Arr [Scalar 0, Scalar 1]])"

definition all_first_ids :: "int tensor nest" where
  "all_first_ids = Leaf (Arr [Arr [Scalar 0, Scalar 0], Arr [Scalar 0, Scalar 0]])"

definition all_first_labels :: "int list" where
  "all_first_labels = [0, 0, 0, 0]"

definition three_agents :: "(int, int, int, int list) agent list" where
  "three_agents = [example_agent 0 3, example_agent 0 4, example_agent 0 5]"

text \<open>
  Sub-agents whose policy emits no info (the info spec is a structure without leaves),
  and a batch recorded with them: its sub-policy info has no leaf either.
\<close>

definition leafless_info_agent :: "int \<Rightarrow> (int, int, int, int list) agent" where
  "leafless_info_agent c =
     \<lparr>time_step_spec = \<lparr>ts_step_type = Leaf 0, ts_reward = Leaf 0,
                         ts_discount = Leaf 0, ts_observation = Leaf 0\<rparr>,
      action_spec = Leaf 0, policy = \<lparr>info_spec = Node []\<rparr>,
      collect_policy = \<lparr>info_spec = Node []\<rparr>,
      train = (\<lambda>e w. (\<lparr>loss = c + sum_list (nest_values (reward e)), extra = ()\<rparr>,
                       w @ nest_values (observation e)))\<rparr>"

definition leafless_info_batch :: "int tensor nest \<Rightarrow> (int, int mixture_info) trajectory" where
  "leafless_info_batch ids =
     \<lparr>step_type = MID,
      observation = Leaf (Arr [Arr [Scalar 1, Scalar 2], Arr [Scalar 3, Scalar 4]]),
      action = Leaf (Arr [Arr [Scalar 0, Scalar 1], Arr [Scalar 1, Scalar 0]]),
      policy_info = \<lparr>mixture_agent_id = ids, subpolicy_info = Node []\<rparr>,
      next_step_type = MID,
      reward = Leaf (Arr [Arr [Scalar 10, Scalar 20], Arr [Scalar 30, Scalar 40]]),
      discount = Leaf (Arr [Arr [Scalar 1, Scalar 1], Arr [Scalar 1, Scalar 1]])\<rparr>"

text \<open>The coordinator that the constructor builds from such sub-agents.\<close>

definition leafless_info_coordinator ::
  "(int, int, int, int list) agent list \<Rightarrow> (int, int, int, int, int list) static_mixture_agent"
where
  "leafless_info_coordinator agents =
     \<lparr>sma_time_step_spec = \<lparr>ts_step_type = Leaf 0, ts_reward = Leaf 0,
                             ts_discount = Leaf 0, ts_observation = Leaf 0\<rparr>,
      sma_action_spec = Leaf 0,
      sma_policy = MixturePolicy (map (\<lambda>_. 1) agents) (map collect_policy agents),
      sma_collect_policy = MixturePolicy (map (\<lambda>_. 1) agents) (map collect_policy agents),
      sma_original_info_spec = Node [],
      sma_agents = agents, sma_num_agents = length agents,
      sma_mixture_weights = map (\<lambda>_. 1) agents\<rparr>"

text \<open>A small structure with two row-aligned leaves, and a labelling of its four rows.\<close>

definition example_nest :: "int tensor nest" where
  "example_nest =
     Node [(''obs'', Leaf (Arr [Scalar 10, Scalar 11, Scalar 12, Scalar 13])),
           (''aux'', Node [(''x'', Leaf (Arr [Arr [Scalar 1], Arr [Scalar 2], Arr [Scalar 3],
                                            Arr [Scalar 4]]))])]"

definition example_labels :: "int list" where
  "example_labels = [0, 1, 0, 1]"

section \<open>Properties of the constructor\<close>

lemma check_agents_last:
  "check_agents tss acs ifs ags m =
     (let fs = filter fst (concat (map (agent_checks tss acs ifs) ags))
      in if fs = [] then m else Some (snd (last fs)))"
proof (induction ags arbitrary: m)
  case Nil
  show ?case by simp
next
  case (Cons a ags)
  show ?case
    by (simp add: Cons.IH agent_checks_def Let_def)
qed

lemma check_agents_None:
  "check_agents tss acs ifs ags m = None \<longleftrightarrow>
     m = None \<and> (\<forall>a \<in> set ags. action_spec a = acs \<and> time_step_spec a = tss
                    \<and> info_spec (policy a) = ifs)"
  by (induction ags arbitrary: m) (auto simp: Let_def)



lemma init_Cons:
  "StaticMixtureAgent_init mw (a0 # others) =
     (case (if length mw \<noteq> Suc (length others) then Some msg_length
            else check_agents (time_step_spec a0) (action_spec a0) (info_spec (policy a0)) others None) of
        Some msg \<Rightarrow> Inl (ValueError msg)
      | None \<Rightarrow> Inr \<lparr>sma_time_step_spec = time_step_spec a0, sma_action_spec = action_spec a0,
                      sma_policy = MixturePolicy mw (map collect_policy (a0 # others)),
                      sma_collect_policy = MixturePolicy mw (map collect_policy (a0 # others)),
                      sma_original_info_spec = info_spec (policy a0),
                      sma_agents = a0 # others, sma_num_agents = Suc (length others),
                      sma_mixture_weights = mw\<rparr>)"
  by (simp add: StaticMixtureAgent_init_def Let_def split: option.splits)



text \<open>
  Claim C5. For a non-empty list of agents that agree on their action spec, time step
  spec and policy info spec, and weights of the same length (whatever their values),
  construction succeeds, and the action spec and time step spec of the coordinator are
  those of the first agent.
\<close>

theorem init_succeeds:
  assumes "agents \<noteq> []" and "length mw = length agents"
    and "\<forall>a \<in> set agents. \<forall>b \<in> set agents.
           action_spec a = action_spec b \<and> time_step_spec a = time_step_spec b
           \<and> info_spec (policy a) = info_spec (policy b)"
  shows "\<exists>self. StaticMixtureAgent_init mw agents = Inr self
           \<and> sma_action_spec self = action_spec (agents ! 0)
           \<and> sma_time_step_spec self = time_step_spec (agents ! 0)"
proof -
  from assms(1) obtain a0 others where ags: "agents = a0 # others"
    by (cases agents) auto
  have "\<forall>a \<in> set others. action_spec a = action_spec a0
      \<and> time_step_spec a = time_step_spec a0 \<and> info_spec (policy a) = info_spec (policy a0)"
  proof
    fix a
    assume "a \<in> set others"
    then have "a \<in> set agents" and "a0 \<in> set agents"
      unfolding ags by simp_all
    with assms(3) show "action_spec a = action_spec a0
      \<and> time_step_spec a = time_step_spec a0 \<and> info_spec (policy a) = info_spec (policy a0)"
      by blast
  qed
  then have c: "check_agents (time_step_spec a0) (action_spec a0) (info_spec (policy a0)) others None
      = None"
    by (simp only: check_agents_None simp_thms)
  from assms(2) have len: "length mw = Suc (length others)"
    unfolding ags by simp
  have "StaticMixtureAgent_init mw agents =
      Inr \<lparr>sma_time_step_spec = time_step_spec a0, sma_action_spec = action_spec a0,
                      sma_policy = MixturePolicy mw (map collect_policy (a0 # others)),
                      sma_collect_policy = MixturePolicy mw (map collect_policy (a0 # others)),
                      sma_original_info_spec = info_spec (policy a0),
                      sma_agents = a0 # others, sma_num_agents = Suc (length others),
                      sma_mixture_weights = mw\<rparr>"
    unfolding ags init_Cons c using len by simp
  then show ?thesis
    unfolding ags by simp
qed

lemma failing_checks_Nil:
  "failing_checks mw [] = (if length mw \<noteq> 0 then [msg_length] else [])"
  by (simp add: failing_checks_def validation_checks_def)

lemma failing_checks_Cons:
  "failing_checks mw (a0 # others) =
     map snd (filter fst (concat (map (agent_checks (time_step_spec a0) (action_spec a0)
                         (info_spec (policy a0))) others)))
     @ (if length mw \<noteq> Suc (length others) then [msg_length] else [])"
  by (simp add: failing_checks_def validation_checks_def)

text \<open>
  Claim C9. The checks in evaluation order are \<open>validation_checks\<close>: for every agent
  after the first its action spec, time step spec and info spec, then the length check.
  When more than one of them fails, the error raised carries the message of the last
  failing one; a length mismatch then always gives the length message.
\<close>

theorem init_last_failing_check:
  "1 < length (failing_checks mw agents) \<Longrightarrow>
     StaticMixtureAgent_init mw agents = Inl (ValueError (last (failing_checks mw agents)))
     \<and> (length mw \<noteq> length agents \<longrightarrow>
          StaticMixtureAgent_init mw agents = Inl (ValueError msg_length))"
proof (cases agents)
  case Nil
  assume "1 < length (failing_checks mw agents)"
  with Nil have False
    by (simp add: failing_checks_Nil split: if_splits)
  then show ?thesis ..
next
  case (Cons a0 others)
  assume more: "1 < length (failing_checks mw agents)"
  define fs where "fs = filter fst (concat (map (agent_checks (time_step_spec a0) (action_spec a0)
                         (info_spec (policy a0))) others))"
  have c: "check_agents (time_step_spec a0) (action_spec a0) (info_spec (policy a0)) others None
      = (if fs = [] then None else Some (snd (last fs)))"
    unfolding fs_def by (simp only: check_agents_last Let_def)
  have f: "failing_checks mw agents =
      map snd fs @ (if length mw \<noteq> Suc (length others) then [msg_length] else [])"
    unfolding Cons fs_def by (rule failing_checks_Cons)
  show ?thesis
  proof (cases "length mw \<noteq> Suc (length others)")
    case True
    then have "StaticMixtureAgent_init mw agents = Inl (ValueError msg_length)"
      unfolding Cons init_Cons by simp
    moreover from True have "last (failing_checks mw agents) = msg_length"
      unfolding f by simp
    ultimately show ?thesis by simp
  next
    case False
    with more have ne: "fs \<noteq> []"
      unfolding f by auto
    from False ne have "StaticMixtureAgent_init mw agents = Inl (ValueError (snd (last fs)))"
      unfolding Cons init_Cons c by simp
    moreover from False ne have "last (failing_checks mw agents) = snd (last fs)"
      unfolding f by (simp add: last_map)
    moreover from False have "length mw = length agents"
      unfolding Cons by simp
    ultimately show ?thesis by simp
  qed
qed

lemma init_empty_agents: "StaticMixtureAgent_init mw [] = Inl IndexError"
  by (simp add: StaticMixtureAgent_init_def)

lemma example_agent_sel:
  "action_spec (example_agent s c) = Leaf s"
  "time_step_spec (example_agent s c) =
     \<lparr>ts_step_type = Leaf s, ts_reward = Leaf s, ts_discount = Leaf s, ts_observation = Leaf s\<rparr>"
  "policy (example_agent s c) = \<lparr>info_spec = Leaf s\<rparr>"
  "collect_policy (example_agent s c) = \<lparr>info_spec = Leaf s\<rparr>"
  "train (example_agent s c) e w =
     (\<lparr>loss = c + sum_list (nest_values (reward e)), extra = ()\<rparr>,
      w @ nest_values (observation e))"
  by (simp_all add: example_agent_def)



theorem init_succeeds_witness:
  "[example_agent 0 1, example_agent 0 2] \<noteq> []
   \<and> length [1::int, 1] = length [example_agent 0 1, example_agent 0 2]
   \<and> (\<exists>self. StaticMixtureAgent_init [1::int, 1] [example_agent 0 1, example_agent 0 2] = Inr self
         \<and> sma_action_spec self = Leaf 0
         \<and> sma_time_step_spec self = time_step_spec (example_agent 0 1))"
proof -
  let ?ags = "[example_agent 0 1, example_agent 0 2]"
  have ne: "?ags \<noteq> []" by simp
  have len: "length [1::int, 1] = length ?ags" by simp
  have agree: "\<forall>a \<in> set ?ags. \<forall>b \<in> set ?ags.
           action_spec a = action_spec b \<and> time_step_spec a = time_step_spec b
           \<and> info_spec (policy a) = info_spec (policy b)"
    by (simp add: example_agent_sel)
  from init_succeeds [OF ne len agree] ne len show ?thesis
    by (simp add: example_agent_sel)
qed

lemma example_failing_checks:
  "failing_checks [1::int] [example_agent 0 1, example_agent 1 2]
     = [msg_action, msg_time_step, msg_info, msg_length]"
  by (simp add: failing_checks_Cons agent_checks_def example_agent_sel)

theorem init_last_failing_check_witness:
  "1 < length (failing_checks [1::int] [example_agent 0 1, example_agent 1 2])
   \<and> StaticMixtureAgent_init [1::int] [example_agent 0 1, example_agent 1 2]
       = Inl (ValueError msg_length)"
proof -
  have more: "1 < length (failing_checks [1::int] [example_agent 0 1, example_agent 1 2])"
    by (simp add: example_failing_checks)
  from init_last_failing_check [OF more] more show ?thesis
    by (simp add: example_failing_checks)
qed

section \<open>Properties of the nested partition\<close>

lemma sequence_err_map_Inr: "sequence_err (map Inr xs) = Inr xs"
  by (induction xs) simp_all

lemma sequence_err_InrD: "sequence_err ms = Inr xs \<Longrightarrow> ms = map Inr xs"
  by (induction ms arbitrary: xs) (auto split: sum.splits)

lemma sequence_err_map:
  assumes "\<And>x. x \<in> set xs \<Longrightarrow> f x = Inr (g x)"
  shows "sequence_err (map f xs) = Inr (map g xs)"
proof -
  from assms have "map f xs = map Inr (map g xs)" by simp
  then show ?thesis by (simp only: sequence_err_map_Inr)
qed

lemma map_prod_id_snd: "map_prod id g = (\<lambda>p. (fst p, g (snd p)))"
  by (auto simp: fun_eq_iff)

lemma pack_map_flatten:
  "pack s (map f (flatten s) @ rest) = Some (map_nest f s, rest)"
proof (induction s arbitrary: rest)
  case (Leaf x)
  show ?case by simp
next
  case (Node fs)
  have "pack_fields gs (concat (map (\<lambda>p. map f (flatten (snd p))) gs) @ rest)
          = Some (map (\<lambda>p. (fst p, map_nest f (snd p))) gs, rest)"
    if "set gs \<subseteq> set fs" for gs rest
    using that
  proof (induction gs arbitrary: rest)
    case Nil
    show ?case by simp
  next
    case (Cons g gs)
    obtain n t where g: "g = (n, t)" by (cases g)
    from Cons.prems g have "(n, t) \<in> set fs" by simp
    then have "pack t (map f (flatten t) @ r) = Some (map_nest f t, r)" for r
      using Node.IH [of "(n, t)" t] by simp
    moreover from Cons have "pack_fields gs (concat (map (\<lambda>p. map f (flatten (snd p))) gs) @ r)
          = Some (map (\<lambda>p. (fst p, map_nest f (snd p))) gs, r)" for r
      by simp
    ultimately show ?case by (simp add: g)
  qed
  from this [of fs rest] show ?case
    by (simp add: map_concat comp_def map_prod_id_snd)
qed

lemma pack_sequence_as_map:
  "pack_sequence_as s (map f (flatten s)) = Inr (map_nest f s)"
  using pack_map_flatten [of s f "[]"] by (simp add: pack_sequence_as_def)

lemma flatten_map_nest: "flatten (map_nest f t) = map f (flatten t)"
proof (induction t)
  case (Leaf x)
  show ?case by simp
next
  case (Node fs)
  have eq: "map (\<lambda>p. flatten (map_nest f (snd p))) fs = map (\<lambda>p. map f (flatten (snd p))) fs"
  proof (rule map_cong [OF refl])
    fix p
    assume p: "p \<in> set fs"
    obtain n t where nt: "p = (n, t)" by (cases p)
    with p Node.IH [of p t] show "flatten (map_nest f (snd p)) = map f (flatten (snd p))"
      by simp
  qed
  have "flatten (map_nest f (Node fs)) = concat (map (\<lambda>p. flatten (map_nest f (snd p))) fs)"
    by (simp add: comp_def map_prod_id_snd)
  also have "\<dots> = concat (map (\<lambda>p. map f (flatten (snd p))) fs)"
    by (simp only: eq)
  also have "\<dots> = map f (flatten (Node fs))"
    by (simp add: map_concat comp_def)
  finally show ?case .
qed

lemma tree_shape_map_nest: "tree_shape (map_nest f t) = tree_shape t"
  by (simp add: tree_shape_def nest.map_comp comp_def)

lemma labels_of_map_Scalar: "labels_of (map Scalar labels) = Some labels"
  by (induction labels) simp_all

lemma labels_of_SomeD: "labels_of ps = Some labels \<Longrightarrow> ps = map Scalar labels"
proof (induction ps arbitrary: labels rule: labels_of.induct)
  case 1
  then show ?case by simp
next
  case (2 p ts)
  then show ?case by auto
next
  case (3 uu ts)
  then show ?case by simp
qed

lemma zip_as_map_nth:
  assumes "length xs = length ys"
  shows "zip xs ys = map (\<lambda>j. (xs ! j, ys ! j)) [0..<length ys]"
  using assms by (intro nth_equalityI) simp_all

lemma filter_zip_by_label:
  assumes "length rows = length labels"
  shows "map fst (filter (\<lambda>rp. snd rp = c) (zip rows labels))
           = map (\<lambda>j. rows ! j) (filter (\<lambda>j. labels ! j = c) [0..<length labels])"
  by (simp add: zip_as_map_nth [OF assms] filter_map comp_def)

lemma dynamic_partition_rows:
  assumes "length rows = length labels"
    and "\<forall>p \<in> set labels. 0 \<le> p \<and> p < int n"
  shows "dynamic_partition (Arr rows) (Leaf (Arr (map Scalar labels))) n
           = Inr (map (\<lambda>k. take_rows (group_rows labels k) (Arr rows)) [0..<n])"
proof -
  have "\<not> (\<exists>p \<in> set labels. p < 0 \<or> int n \<le> p)"
    using assms(2) by auto
  then show ?thesis
    using assms(1)
    by (simp add: dynamic_partition_def as_tensor_def ebind_def labels_of_map_Scalar filter_zip_by_label
        take_rows_def group_rows_def leading_rows_def)
qed

lemma fold_min_same: "\<forall>y \<in> set ls. y = n \<Longrightarrow> fold min ls (n::nat) = n"
  by (induction ls) simp_all

lemma zip_star_transpose:
  assumes "leaves \<noteq> []"
  shows "zip_star (map (\<lambda>leaf. map (g leaf) [0..<n]) leaves)
           = map (\<lambda>k. map (\<lambda>leaf. g leaf k) leaves) [0..<n]"
proof -
  from assms obtain l ls where leaves: "leaves = l # ls" by (cases leaves) auto
  have m: "fold min (map length (map (\<lambda>leaf. map (g leaf) [0..<n]) ls)) n = n"
    by (rule fold_min_same) simp
  have "zip_star (map (\<lambda>leaf. map (g leaf) [0..<n]) leaves)
      = map (\<lambda>i. map (\<lambda>ys. ys ! i) (map (\<lambda>leaf. map (g leaf) [0..<n]) leaves)) [0..<n]"
    using m unfolding leaves by (simp add: zip_star_def)
  also have "\<dots> = map (\<lambda>k. map (\<lambda>leaf. g leaf k) leaves) [0..<n]"
    by (rule map_cong [OF refl]) simp
  finally show ?thesis .
qed

lemma zip_star_Nil: "zip_star [] = []"
  by (simp add: zip_star_def)

text \<open>What the nested partition computes on a structure with at least one leaf.\<close>

lemma nested_partition_groups:
  assumes leaves: "flatten t \<noteq> []"
    and aligned: "\<forall>leaf \<in> set (flatten t). \<exists>rows. leaf = Arr rows \<and> length rows = length labels"
    and range: "\<forall>p \<in> set labels. 0 \<le> p \<and> p < int n"
  shows "dynamic_partition_of_nested_tensors t (Leaf (Arr (map Scalar labels))) n
           = Inr (map (\<lambda>k. map_nest (take_rows (group_rows labels k)) t) [0..<n])"
proof -
  let ?g = "\<lambda>leaf k. take_rows (group_rows labels k) leaf"
  have "dynamic_partition leaf (Leaf (Arr (map Scalar labels))) n = Inr (map (?g leaf) [0..<n])"
    if "leaf \<in> set (flatten t)" for leaf
  proof -
    from aligned that obtain rows where "leaf = Arr rows" "length rows = length labels"
      by blast
    with range show ?thesis by (simp add: dynamic_partition_rows)
  qed
  then have s: "sequence_err (map (\<lambda>leaf. dynamic_partition leaf (Leaf (Arr (map Scalar labels))) n)
                   (flatten t)) = Inr (map (\<lambda>leaf. map (?g leaf) [0..<n]) (flatten t))"
    by (rule sequence_err_map)
  have p: "sequence_err (map (pack_sequence_as t) (map (\<lambda>k. map (\<lambda>leaf. ?g leaf k) (flatten t)) [0..<n]))
      = Inr (map (\<lambda>k. map_nest (take_rows (group_rows labels k)) t) [0..<n])"
    unfolding map_map by (rule sequence_err_map) (simp add: pack_sequence_as_map)
  show ?thesis
    unfolding dynamic_partition_of_nested_tensors_def Let_def s
    by (simp only: ebind_def sum.case zip_star_transpose [OF leaves] p)
qed

lemma nested_partition_leafless:
  assumes "flatten t = []"
  shows "dynamic_partition_of_nested_tensors t p n = Inr []"
  using assms by (simp add: dynamic_partition_of_nested_tensors_def ebind_def zip_star_Nil)

lemma set_group_rows:
  "set (group_rows labels k) = {j. j < length labels \<and> labels ! j = int k}"
  by (auto simp: group_rows_def)

lemma sorted_group_rows: "sorted_wrt (<) (group_rows labels k)"
  unfolding group_rows_def by (rule sorted_wrt_filter) (rule sorted_wrt_upt)

lemma length_group_rows:
  "length (group_rows labels k) = length (filter (\<lambda>p. p = int k) labels)"
proof -
  have "filter (\<lambda>p. p = int k) (map (\<lambda>j. labels ! j) [0..<length labels])
      = map (\<lambda>j. labels ! j) (group_rows labels k)"
    by (simp add: filter_map comp_def group_rows_def)
  then have "filter (\<lambda>p. p = int k) labels = map (\<lambda>j. labels ! j) (group_rows labels k)"
    by (simp only: map_nth)
  then show ?thesis by simp
qed

lemma sum_list_indicator:
  "sum_list (map (\<lambda>k. if k = a then 1 else 0) [0..<n]) = (if a < n then 1 else (0::nat))"
  by (induction n) auto

lemma sum_length_filter_labels:
  assumes "\<forall>p \<in> set labels. 0 \<le> p \<and> p < int n"
  shows "sum_list (map (\<lambda>k. length (filter (\<lambda>p. p = int k) labels)) [0..<n]) = length labels"
  using assms
proof (induction labels)
  case Nil
  show ?case by simp
next
  case (Cons p ps)
  from Cons.prems have p: "0 \<le> p" "nat p < n" by auto
  have "(\<lambda>k. length (filter (\<lambda>q. q = int k) (p # ps)))
      = (\<lambda>k. (if k = nat p then 1 else 0) + length (filter (\<lambda>q. q = int k) ps))"
    using p(1) by (auto simp: fun_eq_iff)
  then have "sum_list (map (\<lambda>k. length (filter (\<lambda>q. q = int k) (p # ps))) [0..<n])
      = sum_list (map (\<lambda>k. if k = nat p then 1 else 0) [0..<n])
        + sum_list (map (\<lambda>k. length (filter (\<lambda>q. q = int k) ps)) [0..<n])"
    by (simp only: sum_list_addf)
  also have "\<dots> = 1 + length ps"
    using p(2) Cons by (simp add: sum_list_indicator)
  finally show ?case by simp
qed

lemma sum_length_group_rows:
  assumes "\<forall>p \<in> set labels. 0 \<le> p \<and> p < int n"
  shows "sum_list (map (\<lambda>k. length (group_rows labels k)) [0..<n]) = length labels"
  using sum_length_filter_labels [OF assms] by (simp only: length_group_rows)

lemma row_count_take_rows:
  assumes "flatten t \<noteq> []"
  shows "row_count (map_nest (take_rows js) t) = length js"
proof -
  from assms obtain l ls where "flatten t = l # ls" by (cases "flatten t") auto
  then show ?thesis
    by (simp add: row_count_def flatten_map_nest take_rows_def leading_rows_def)
qed

lemma unique_group:
  assumes "\<forall>p \<in> set labels. 0 \<le> p \<and> p < int n" and "j < length labels"
  shows "\<exists>!k. k < n \<and> j \<in> set (group_rows labels k)"
proof -
  from assms have p: "0 \<le> labels ! j" "labels ! j < int n" by auto
  show ?thesis
  proof (rule ex1I [of _ "nat (labels ! j)"])
    from p assms(2) show "nat (labels ! j) < n \<and> j \<in> set (group_rows labels (nat (labels ! j)))"
      by (simp add: set_group_rows)
  next
    fix k
    assume "k < n \<and> j \<in> set (group_rows labels k)"
    then show "k = nat (labels ! j)" by (simp add: set_group_rows)
  qed
qed

text \<open>
  Claim C2. On a structure with at least one leaf, whose leaves are arrays of the common
  leading length \<open>M = length labels\<close>, with every label in \<open>[0, n)\<close>, the nested
  partition succeeds and yields \<open>n\<close> groups whose row counts sum to \<open>M\<close>. Group \<open>k\<close>
  holds, in every leaf, the rows at the indices \<open>group_rows labels k\<close>: these are
  exactly the indices labelled \<open>k\<close>, in strictly ascending order, and every row index
  lies in exactly one group.
\<close>

theorem nested_partition_bijection_on_rows:
  assumes "flatten t \<noteq> []"
    and "\<forall>leaf \<in> set (flatten t). \<exists>rows. leaf = Arr rows \<and> length rows = length labels"
    and "\<forall>p \<in> set labels. 0 \<le> p \<and> p < int n"
  shows "\<exists>gs. dynamic_partition_of_nested_tensors t (Leaf (Arr (map Scalar labels))) n = Inr gs
           \<and> length gs = n
           \<and> sum_list (map row_count gs) = length labels
           \<and> (\<forall>k<n. gs ! k = map_nest (take_rows (group_rows labels k)) t
                     \<and> row_count (gs ! k) = length (group_rows labels k)
                     \<and> sorted_wrt (<) (group_rows labels k))
           \<and> (\<forall>j<length labels. \<exists>!k. k < n \<and> j \<in> set (group_rows labels k))
           \<and> (\<forall>j<length labels. \<forall>k. j \<in> set (group_rows labels k) \<longleftrightarrow> labels ! j = int k)"
proof -
  let ?gs = "map (\<lambda>k. map_nest (take_rows (group_rows labels k)) t) [0..<n]"
  have 1: "dynamic_partition_of_nested_tensors t (Leaf (Arr (map Scalar labels))) n = Inr ?gs"
    using assms by (rule nested_partition_groups)
  have 2: "length ?gs = n" by simp
  have "map row_count ?gs = map (\<lambda>k. length (group_rows labels k)) [0..<n]"
    by (simp add: row_count_take_rows [OF assms(1)] comp_def)
  then have 3: "sum_list (map row_count ?gs) = length labels"
    by (simp only: sum_length_group_rows [OF assms(3)])
  have 4: "\<forall>k<n. ?gs ! k = map_nest (take_rows (group_rows labels k)) t
                     \<and> row_count (?gs ! k) = length (group_rows labels k)
                     \<and> sorted_wrt (<) (group_rows labels k)"
    by (simp add: row_count_take_rows [OF assms(1)] sorted_group_rows)
  have 5: "\<forall>j<length labels. \<exists>!k. k < n \<and> j \<in> set (group_rows labels k)"
    using unique_group [OF assms(3)] by blast
  have 6: "\<forall>j<length labels. \<forall>k. j \<in> set (group_rows labels k) \<longleftrightarrow> labels ! j = int k"
    by (simp add: set_group_rows)
  from 1 2 3 4 5 6 show ?thesis by blast
qed

lemma example_group_rows:
  "group_rows example_labels 0 = [0, 2]"
  "group_rows example_labels 1 = [1, 3]"
  by code_simp+

lemma example_flatten:
  "flatten example_nest =
     [Arr [Scalar 10, Scalar 11, Scalar 12, Scalar 13],
      Arr [Arr [Scalar 1], Arr [Scalar 2], Arr [Scalar 3], Arr [Scalar 4]]]"
  by (simp add: example_nest_def)

lemma example_groups:
  "map_nest (take_rows [0, 2]) example_nest =
     Node [(''obs'', Leaf (Arr [Scalar 10, Scalar 12])),
           (''aux'', Node [(''x'', Leaf (Arr [Arr [Scalar 1], Arr [Scalar 3]]))])]"
  "map_nest (take_rows [1, 3]) example_nest =
     Node [(''obs'', Leaf (Arr [Scalar 11, Scalar 13])),
           (''aux'', Node [(''x'', Leaf (Arr [Arr [Scalar 2], Arr [Scalar 4]]))])]"
  by (simp_all add: example_nest_def take_rows_def leading_rows_def)

lemma two_elems: "length gs = 2 \<Longrightarrow> gs = [gs ! 0, gs ! 1]"
  by (cases gs; cases "tl gs") auto

theorem nested_partition_bijection_on_rows_witness:
  "flatten example_nest \<noteq> []
   \<and> dynamic_partition_of_nested_tensors example_nest (Leaf (Arr (map Scalar example_labels))) 2
       = Inr [Node [(''obs'', Leaf (Arr [Scalar 10, Scalar 12])),
                    (''aux'', Node [(''x'', Leaf (Arr [Arr [Scalar 1], Arr [Scalar 3]]))])],
              Node [(''obs'', Leaf (Arr [Scalar 11, Scalar 13])),
                    (''aux'', Node [(''x'', Leaf (Arr [Arr [Scalar 2], Arr [Scalar 4]]))])]]"
proof -
  have h1: "flatten example_nest \<noteq> []"
    by (simp add: example_flatten)
  have h2: "\<forall>leaf \<in> set (flatten example_nest).
         \<exists>rows. leaf = Arr rows \<and> length rows = length example_labels"
    by (simp add: example_flatten example_labels_def)
  have h3: "\<forall>p \<in> set example_labels. 0 \<le> p \<and> p < int 2"
    by (simp add: example_labels_def)
  from nested_partition_bijection_on_rows [OF h1 h2 h3]
  obtain gs where all: "dynamic_partition_of_nested_tensors example_nest
        (Leaf (Arr (map Scalar example_labels))) 2 = Inr gs
      \<and> length gs = 2
      \<and> sum_list (map row_count gs) = length example_labels
      \<and> (\<forall>k<2. gs ! k = map_nest (take_rows (group_rows example_labels k)) example_nest
                     \<and> row_count (gs ! k) = length (group_rows example_labels k)
                     \<and> sorted_wrt (<) (group_rows example_labels k))
      \<and> (\<forall>j<length example_labels. \<exists>!k. k < 2 \<and> j \<in> set (group_rows example_labels k))
      \<and> (\<forall>j<length example_labels. \<forall>k. j \<in> set (group_rows example_labels k)
            \<longleftrightarrow> example_labels ! j = int k)" ..
  from all have gs: "dynamic_partition_of_nested_tensors example_nest
        (Leaf (Arr (map Scalar example_labels))) 2 = Inr gs"
    by (elim conjE)
  from all have len: "length gs = 2"
    by (elim conjE)
  from all have groups: "\<forall>k<2. gs ! k = map_nest (take_rows (group_rows example_labels k)) example_nest
                     \<and> row_count (gs ! k) = length (group_rows example_labels k)
                     \<and> sorted_wrt (<) (group_rows example_labels k)"
    by (elim conjE)
  have "(0::nat) < 2" and "(1::nat) < 2" by simp_all
  with groups have "gs ! 0 = map_nest (take_rows (group_rows example_labels 0)) example_nest"
    and "gs ! 1 = map_nest (take_rows (group_rows example_labels 1)) example_nest"
    by blast+
  then have "gs ! 0 = map_nest (take_rows [0, 2]) example_nest"
    and "gs ! 1 = map_nest (take_rows [1, 3]) example_nest"
    by (simp_all only: example_group_rows)
  with two_elems [OF len] have "gs = [map_nest (take_rows [0, 2]) example_nest,
      map_nest (take_rows [1, 3]) example_nest]"
    by simp
  with gs h1 show ?thesis by (simp only: example_groups simp_thms)
qed

lemma dynamic_partition_InrD:
  assumes "dynamic_partition data p n = Inr parts"
  shows "\<exists>rows labels. data = Arr rows \<and> p = Leaf (Arr (map Scalar labels))
           \<and> length rows = length labels \<and> (\<forall>q \<in> set labels. 0 \<le> q \<and> q < int n)"
proof -
  from assms obtain pt where p: "p = Leaf pt"
    by (cases p) (simp_all add: dynamic_partition_def as_tensor_def ebind_def)
  from assms p obtain rows ps where d: "data = Arr rows" and pt: "pt = Arr ps"
    by (cases data; cases pt) (simp_all add: dynamic_partition_def as_tensor_def ebind_def)
  from assms obtain labels where l: "labels_of ps = Some labels"
    unfolding p d pt
    by (cases "labels_of ps") (simp_all add: dynamic_partition_def as_tensor_def ebind_def)
  from assms have "length rows = length labels"
    and "\<forall>q \<in> set labels. 0 \<le> q \<and> q < int n"
    unfolding p d pt
    by (auto simp: dynamic_partition_def as_tensor_def ebind_def l split: if_splits)
  with p d pt labels_of_SomeD [OF l] show ?thesis by blast
qed

text \<open>
  Whenever the nested partition succeeds on a structure with at least one leaf, it yields
  as many groups as asked for, each with the tree shape of the input and with leaves of
  one common number of rows.
\<close>

lemma nested_partition_keeps_shape:
  assumes ok: "dynamic_partition_of_nested_tensors t p n = Inr gs"
    and leaves: "flatten t \<noteq> []"
  shows "length gs = n
         \<and> (\<forall>g \<in> set gs. tree_shape g = tree_shape t
               \<and> (\<forall>leaf \<in> set (flatten g). \<exists>rows. leaf = Arr rows \<and> length rows = row_count g))"
proof -
  from ok obtain pf where
    s: "sequence_err (map (\<lambda>leaf. dynamic_partition leaf p n) (flatten t)) = Inr pf"
    by (cases "sequence_err (map (\<lambda>leaf. dynamic_partition leaf p n) (flatten t))")
      (simp_all add: dynamic_partition_of_nested_tensors_def ebind_def)
  have each: "\<exists>parts. dynamic_partition leaf p n = Inr parts" if "leaf \<in> set (flatten t)" for leaf
  proof -
    from that have "dynamic_partition leaf p n
        \<in> set (map (\<lambda>leaf. dynamic_partition leaf p n) (flatten t))"
      by simp
    then have "dynamic_partition leaf p n \<in> set (map Inr pf)"
      by (simp only: sequence_err_InrD [OF s])
    then show ?thesis by auto
  qed
  from leaves obtain l0 where "l0 \<in> set (flatten t)"
    by (cases "flatten t") auto
  from each [OF this] obtain labels where p: "p = Leaf (Arr (map Scalar labels))"
    and range: "\<forall>q \<in> set labels. 0 \<le> q \<and> q < int n"
    by (blast dest: dynamic_partition_InrD)
  have aligned: "\<forall>leaf \<in> set (flatten t). \<exists>rows. leaf = Arr rows \<and> length rows = length labels"
  proof
    fix leaf
    assume "leaf \<in> set (flatten t)"
    from each [OF this] obtain rows labels' where "leaf = Arr rows"
      and "p = Leaf (Arr (map Scalar labels'))" and "length rows = length labels'"
      by (blast dest: dynamic_partition_InrD)
    moreover from this(2) p have "map Scalar labels' = map Scalar labels" by simp
    then have "length labels' = length labels" by (metis length_map)
    ultimately show "\<exists>rows. leaf = Arr rows \<and> length rows = length labels" by simp
  qed
  from ok nested_partition_groups [OF leaves aligned range]
  have gs: "gs = map (\<lambda>k. map_nest (take_rows (group_rows labels k)) t) [0..<n]"
    unfolding p by simp
  have "tree_shape g = tree_shape t
      \<and> (\<forall>leaf \<in> set (flatten g). \<exists>rows. leaf = Arr rows \<and> length rows = row_count g)"
    if "g \<in> set gs" for g
  proof -
    from that gs obtain k where g: "g = map_nest (take_rows (group_rows labels k)) t"
      by auto
    show ?thesis
      unfolding g
      by (auto simp: tree_shape_map_nest row_count_take_rows [OF leaves] flatten_map_nest
          take_rows_def)
  qed
  with gs show ?thesis by simp
qed

text \<open>
  Claim C3 (each of the N groups of the nested partition has the tree shape of the
  input) fails on a structure without leaves, such as the empty info spec: no leaf is
  partitioned, \<open>zip(*[])\<close> is empty, and the result is an empty list instead of N
  groups shaped like the input. Here N is 1 and the batch has one row.
\<close>

theorem nested_partition_leafless_no_groups:
  "dynamic_partition_of_nested_tensors (Node [] :: int tensor nest) (Leaf (Arr [Scalar 0])) 1
     = Inr []"
  by (simp add: dynamic_partition_of_nested_tensors_def ebind_def zip_star_def)

section \<open>Properties of training\<close>

lemma flatten_outer_dims_valid:
  "two_batch_dims leaf \<Longrightarrow> flatten_outer_dims leaf = Inr (Arr (flat_rows leaf))"
  by (auto simp: two_batch_dims_def flatten_outer_dims_def flat_rows_def split: tensor.splits)

lemma flatten_multi_valid:
  assumes "tree_shape x = tree_shape spec"
    and "\<forall>leaf \<in> set (flatten x). two_batch_dims leaf"
  shows "flatten_multi_batched_nested_tensors x spec
           = Inr (map_nest (\<lambda>leaf. Arr (flat_rows leaf)) x)"
proof -
  have "sequence_err (map flatten_outer_dims (flatten x))
      = Inr (map (\<lambda>leaf. Arr (flat_rows leaf)) (flatten x))"
    using assms(2) by (intro sequence_err_map flatten_outer_dims_valid) simp
  with assms(1) show ?thesis
    by (simp add: flatten_multi_batched_nested_tensors_def ebind_def pack_sequence_as_map)
qed

lemma flatten_multi_field:
  assumes "valid_field x spec m"
  shows "flatten_multi_batched_nested_tensors x spec
           = Inr (map_nest (\<lambda>leaf. Arr (flat_rows leaf)) x)"
  using assms by (intro flatten_multi_valid) (simp_all add: valid_field_def)

lemma partition_field:
  assumes "valid_field x spec (length labels)"
    and "\<forall>p \<in> set labels. 0 \<le> p \<and> p < int n"
  shows "ebind (dynamic_partition_of_nested_tensors
                  (map_nest (\<lambda>leaf. Arr (flat_rows leaf)) x) (Leaf (Arr (map Scalar labels))) n) f
           = f (map (\<lambda>k. map_nest (take_rows (group_rows labels k))
                            (map_nest (\<lambda>leaf. Arr (flat_rows leaf)) x)) [0..<n])"
proof -
  let ?x = "map_nest (\<lambda>leaf. Arr (flat_rows leaf)) x"
  from assms(1) have 1: "flatten ?x \<noteq> []"
    by (simp add: valid_field_def flatten_map_nest)
  from assms(1) have 2: "\<forall>leaf \<in> set (flatten ?x).
      \<exists>rows. leaf = Arr rows \<and> length rows = length labels"
    by (auto simp: valid_field_def flatten_map_nest)
  have p: "dynamic_partition_of_nested_tensors ?x (Leaf (Arr (map Scalar labels))) n
      = Inr (map (\<lambda>k. map_nest (take_rows (group_rows labels k)) ?x) [0..<n])"
    using 1 2 assms(2) by (rule nested_partition_groups)
  show ?thesis
    unfolding p by (simp add: ebind_def)
qed

lemma batch_groups:
  "map batch_nested_tensors
     (map (\<lambda>k. map_nest (take_rows (group_rows labels k))
                  (map_nest (\<lambda>leaf. Arr (flat_rows leaf)) x)) [0..<n])
     = map (\<lambda>k. routed_group labels k x) [0..<n]"
  by (simp add: batch_nested_tensors_def routed_group_def nest.map_comp comp_def)

lemma policy_choice_valid:
  assumes "batch_labels e = Some labels"
    and "tree_shape (mixture_agent_id (policy_info e)) = tree_shape spec"
  shows "ebind (flatten_multi_batched_nested_tensors (mixture_agent_id (policy_info e)) spec) f
           = f (Leaf (Arr (map Scalar labels)))"
proof -
  from assms(1) obtain t where t: "mixture_agent_id (policy_info e) = Leaf t"
    and two: "two_batch_dims t" and l: "labels_of (flat_rows t) = Some labels"
    by (auto simp: batch_labels_def split: nest.splits if_splits)
  from l have "flat_rows t = map Scalar labels" by (rule labels_of_SomeD)
  moreover have "flatten_multi_batched_nested_tensors (Leaf t) spec
      = Inr (map_nest (\<lambda>leaf. Arr (flat_rows leaf)) (Leaf t))"
    using assms(2) two unfolding t by (intro flatten_multi_valid) simp_all
  ultimately show ?thesis
    unfolding t by (simp add: ebind_def)
qed

lemma train_loop_run_calls:
  assumes "\<forall>k \<in> set ks. k < length agents \<and> k < length obs \<and> k < length act
             \<and> k < length infos \<and> k < length rews"
  shows "train_loop agents obs act infos rews ks l w
           = Inr (foldl (+) l (map loss (fst (run_calls
                    (map (\<lambda>k. (agents ! k, single_step (obs ! k) (act ! k) (infos ! k) (rews ! k)
                                               (zeros_like (rews ! k)))) ks) w))),
                  snd (run_calls
                    (map (\<lambda>k. (agents ! k, single_step (obs ! k) (act ! k) (infos ! k) (rews ! k)
                                               (zeros_like (rews ! k)))) ks) w))"
  using assms
proof (induction ks arbitrary: l w)
  case Nil
  show ?case by simp
next
  case (Cons k ks)
  then show ?case
    by (simp add: getitem_def ebind_def Let_def split: prod.splits)
qed

lemma ebind_Inr: "ebind (Inr v) f = f v"
  by (simp add: ebind_def)

lemma train_valid:
  assumes num: "sma_num_agents self = length (sma_agents self)"
    and valid: "valid_batch self e labels"
  shows "StaticMixtureAgent_train self e weights w
           = Inr (finish (run_calls
                    (map (\<lambda>k. (sma_agents self ! k, routed_experience labels k e))
                       [0..<sma_num_agents self]) w))"
proof -
  let ?n = "sma_num_agents self"
  let ?flat = "map_nest (\<lambda>leaf. Arr (flat_rows leaf))"
  from valid have labels: "batch_labels e = Some labels"
    and shape: "tree_shape (mixture_agent_id (policy_info e))
         = tree_shape (ts_reward (sma_time_step_spec self))"
    and range: "\<forall>p \<in> set labels. 0 \<le> p \<and> p < int ?n"
    and rew: "valid_field (reward e) (ts_reward (sma_time_step_spec self)) (length labels)"
    and act: "valid_field (action e) (sma_action_spec self) (length labels)"
    and obs: "valid_field (observation e) (ts_observation (sma_time_step_spec self))
         (length labels)"
    and info: "valid_field (subpolicy_info (policy_info e)) (sma_original_info_spec self)
         (length labels)"
    by (simp_all add: valid_batch_def)
  let ?obs = "map (\<lambda>k. routed_group labels k (observation e)) [0..<?n]"
  let ?act = "map (\<lambda>k. routed_group labels k (action e)) [0..<?n]"
  let ?info = "map (\<lambda>k. routed_group labels k (subpolicy_info (policy_info e))) [0..<?n]"
  let ?rew = "map (\<lambda>k. routed_group labels k (reward e)) [0..<?n]"
  have pre: "StaticMixtureAgent_train self e weights w
      = ebind (train_loop (sma_agents self) ?obs ?act ?info ?rew [0..<?n] 0 w)
          (\<lambda>(l, w'). Inr (\<lparr>loss = l, extra = ()\<rparr>, w'))"
    unfolding StaticMixtureAgent_train_def
    by (simp only: flatten_multi_field [OF rew] flatten_multi_field [OF act]
        flatten_multi_field [OF obs] flatten_multi_field [OF info]
        policy_choice_valid [OF labels shape] ebind_Inr
        partition_field [OF rew range] partition_field [OF act range]
        partition_field [OF obs range] partition_field [OF info range]
        Let_def batch_groups)
  have bounds: "\<forall>k \<in> set [0..<?n]. k < length (sma_agents self) \<and> k < length ?obs
      \<and> k < length ?act \<and> k < length ?info \<and> k < length ?rew"
    using num by simp
  have calls: "map (\<lambda>k. (sma_agents self ! k,
        single_step (?obs ! k) (?act ! k) (?info ! k) (?rew ! k) (zeros_like (?rew ! k))))
        [0..<?n]
      = map (\<lambda>k. (sma_agents self ! k, routed_experience labels k e)) [0..<?n]"
    by (rule map_cong [OF refl]) (simp add: routed_experience_def)
  show ?thesis
    unfolding pre train_loop_run_calls [OF bounds] calls
    by (simp add: ebind_def finish_def)
qed

lemma init_InrD:
  assumes "StaticMixtureAgent_init mw agents = Inr self"
  shows "sma_agents self = agents" and "sma_num_agents self = length agents"
    and "agents \<noteq> []"
proof -
  from assms obtain a0 others where ags: "agents = a0 # others"
    by (cases agents) (auto simp: StaticMixtureAgent_init_def)
  from assms show "sma_agents self = agents" and "sma_num_agents self = length agents"
    unfolding ags init_Cons by (auto split: option.splits if_splits)
  from ags show "agents \<noteq> []" by simp
qed

lemma run_calls_Cons:
  "run_calls (c # calls) w
     = (fst (train (fst c) (snd c) w) # fst (run_calls calls (snd (train (fst c) (snd c) w))),
        snd (run_calls calls (snd (train (fst c) (snd c) w))))"
  by (simp add: Let_def case_prod_unfold)

lemma length_run_calls: "length (fst (run_calls calls w)) = length calls"
  by (induction calls arbitrary: w) (simp_all add: run_calls_Cons del: run_calls.simps(2))

lemma run_calls_nth:
  "k < length calls \<Longrightarrow>
     fst (run_calls calls w) ! k
       = fst (train (fst (calls ! k)) (snd (calls ! k)) (snd (run_calls (take k calls) w)))"
proof (induction calls arbitrary: k w)
  case Nil
  then show ?case by simp
next
  case (Cons c calls)
  show ?case
  proof (cases k)
    case 0
    then show ?thesis by (simp add: run_calls_Cons del: run_calls.simps(2))
  next
    case (Suc j)
    with Cons.prems have "j < length calls" by simp
    from Cons.IH [OF this] Suc show ?thesis
      by (simp add: run_calls_Cons del: run_calls.simps(2))
  qed
qed

lemma train_constructed:
  assumes "StaticMixtureAgent_init mw agents = Inr self"
    and "valid_batch self e labels"
  shows "StaticMixtureAgent_train self e weights w
           = Inr (finish (run_calls
                    (map (\<lambda>k. (agents ! k, routed_experience labels k e)) [0..<length agents])
                    w))"
proof -
  from init_InrD [OF assms(1)] have ags: "sma_agents self = agents"
    and num: "sma_num_agents self = length agents"
    by simp_all
  from num ags have "sma_num_agents self = length (sma_agents self)" by simp
  from train_valid [OF this assms(2)] show ?thesis
    unfolding ags num .
qed

text \<open>
  Where every field of the batch has a leaf, training does route and sum. On such a
  valid batch it is the sequence of calls that trains sub-agent \<open>0\<close>, then \<open>1\<close>, up to
  \<open>N - 1\<close>, each once, sub-agent \<open>k\<close> on the trajectory made of the rows whose recorded
  index is \<open>k\<close>; it returns the final state and, as its loss, the plain sum of the \<open>N\<close>
  losses returned, added in turn from zero.
\<close>

lemma train_routes_and_sums:
  assumes "StaticMixtureAgent_init mw agents = Inr self"
    and "valid_batch self e labels"
  shows "\<exists>lis w'.
           run_calls (map (\<lambda>k. (agents ! k, routed_experience labels k e)) [0..<length agents]) w
             = (lis, w')
           \<and> length lis = length agents
           \<and> StaticMixtureAgent_train self e weights w
               = Inr (\<lparr>loss = foldl (+) 0 (map loss lis), extra = ()\<rparr>, w')"
proof -
  let ?calls = "map (\<lambda>k. (agents ! k, routed_experience labels k e)) [0..<length agents]"
  have "StaticMixtureAgent_train self e weights w = Inr (finish (run_calls ?calls w))"
    using assms by (rule train_constructed)
  moreover obtain lis w' where r: "run_calls ?calls w = (lis, w')"
    by (cases "run_calls ?calls w")
  moreover from length_run_calls [of ?calls w] r have "length lis = length agents"
    by simp
  ultimately show ?thesis
    by (simp add: finish_def)
qed

lemma example_group_rows_Suc:
  "group_rows example_labels (Suc 0) = [1, 3]"
  using example_group_rows(2) by simp

lemma example_init:
  "StaticMixtureAgent_init [1, 1] [example_agent 0 3, example_agent 0 4]
     = Inr (example_coordinator [example_agent 0 3, example_agent 0 4])"
  by (simp add: init_Cons example_agent_sel example_coordinator_def)

lemma example_batch_sel:
  "observation (example_batch ids) = Leaf (Arr [Arr [Scalar 1, Scalar 2], Arr [Scalar 3, Scalar 4]])"
  "action (example_batch ids) = Leaf (Arr [Arr [Scalar 0, Scalar 1], Arr [Scalar 1, Scalar 0]])"
  "mixture_agent_id (policy_info (example_batch ids)) = ids"
  "subpolicy_info (policy_info (example_batch ids))
     = Leaf (Arr [Arr [Scalar 5, Scalar 6], Arr [Scalar 7, Scalar 8]])"
  "reward (example_batch ids) = Leaf (Arr [Arr [Scalar 10, Scalar 20], Arr [Scalar 30, Scalar 40]])"
  by (simp_all add: example_batch_def)

lemma example_coordinator_sel:
  "sma_time_step_spec (example_coordinator ags)
     = \<lparr>ts_step_type = Leaf 0, ts_reward = Leaf 0, ts_discount = Leaf 0, ts_observation = Leaf 0\<rparr>"
  "sma_action_spec (example_coordinator ags) = Leaf 0"
  "sma_original_info_spec (example_coordinator ags) = Leaf 0"
  "sma_agents (example_coordinator ags) = ags"
  "sma_num_agents (example_coordinator ags) = length ags"
  by (simp_all add: example_coordinator_def)

lemma example_flat_rows:
  "two_batch_dims (Arr [Arr [a, b], Arr [c, d]])"
  "flat_rows (Arr [Arr [a, b], Arr [c, d]]) = [a, b, c, d]"
  by (simp_all add: two_batch_dims_def flat_rows_def)

lemma example_batch_labels:
  "batch_labels (example_batch alternating_ids) = Some example_labels"
  by (simp add: batch_labels_def example_batch_sel alternating_ids_def example_flat_rows
      example_labels_def)

lemma example_valid:
  "valid_batch (example_coordinator [example_agent 0 3, example_agent 0 4])
     (example_batch alternating_ids) example_labels"
  unfolding valid_batch_def valid_field_def example_batch_labels
  by (simp add: example_batch_sel example_coordinator_sel example_flat_rows tree_shape_def
      alternating_ids_def example_labels_def)

lemma routed_group_leaf:
  "routed_group labels k (Leaf t) = Leaf (Arr [take_rows (group_rows labels k) (Arr (flat_rows t))])"
  by (simp add: routed_group_def)

lemma take_rows_pair:
  "take_rows [i, j] (Arr rows) = Arr [rows ! i, rows ! j]"
  by (simp add: take_rows_def leading_rows_def)

lemma example_routed:
  "routed_experience example_labels 0 (example_batch alternating_ids)
     = single_step (Leaf (Arr [Arr [Scalar 1, Scalar 3]])) (Leaf (Arr [Arr [Scalar 0, Scalar 1]]))
         (Leaf (Arr [Arr [Scalar 5, Scalar 7]])) (Leaf (Arr [Arr [Scalar 10, Scalar 30]]))
         (Leaf (Arr [Arr [Scalar 0, Scalar 0]]))"
  "routed_experience example_labels (Suc 0) (example_batch alternating_ids)
     = single_step (Leaf (Arr [Arr [Scalar 2, Scalar 4]])) (Leaf (Arr [Arr [Scalar 1, Scalar 0]]))
         (Leaf (Arr [Arr [Scalar 6, Scalar 8]])) (Leaf (Arr [Arr [Scalar 20, Scalar 40]]))
         (Leaf (Arr [Arr [Scalar 0, Scalar 0]]))"
  by (simp_all add: routed_experience_def routed_group_leaf example_batch_sel example_flat_rows
      example_group_rows example_group_rows_Suc take_rows_pair zeros_like_def)

lemma example_train_agent:
  "train (example_agent s c) (single_step obs act info rew disc) w
     = (\<lparr>loss = c + sum_list (nest_values rew), extra = ()\<rparr>, w @ nest_values obs)"
  by (simp add: example_agent_sel single_step_def)

lemma example_run_calls:
  "run_calls (map (\<lambda>k. ([example_agent 0 3, example_agent 0 4] ! k,
                        routed_experience example_labels k (example_batch alternating_ids)))
                [0..<length [example_agent 0 3, example_agent 0 4]]) []
     = ([\<lparr>loss = 43, extra = ()\<rparr>, \<lparr>loss = 64, extra = ()\<rparr>], [1, 3, 2, 4])"
  by (simp add: run_calls_Cons example_routed example_train_agent nest_values_def
      del: run_calls.simps(2))

lemma train_routes_and_sums_example:
  "StaticMixtureAgent_init [1, 1] [example_agent 0 3, example_agent 0 4]
     = Inr (example_coordinator [example_agent 0 3, example_agent 0 4])
   \<and> valid_batch (example_coordinator [example_agent 0 3, example_agent 0 4])
       (example_batch alternating_ids) example_labels
   \<and> StaticMixtureAgent_train (example_coordinator [example_agent 0 3, example_agent 0 4])
       (example_batch alternating_ids) (None :: unit option) []
       = Inr (\<lparr>loss = 107, extra = ()\<rparr>, [1, 3, 2, 4])"
proof -
  from train_routes_and_sums [OF example_init example_valid, of "[]" "None :: unit option"]
  have "StaticMixtureAgent_train (example_coordinator [example_agent 0 3, example_agent 0 4])
       (example_batch alternating_ids) (None :: unit option) []
       = Inr (\<lparr>loss = 107, extra = ()\<rparr>, [1, 3, 2, 4])"
    unfolding example_run_calls by auto
  with example_init example_valid show ?thesis by simp
qed

lemma group_rows_absent:
  assumes "int k \<notin> set labels"
  shows "group_rows labels k = []"
proof -
  have "\<forall>j \<in> set [0..<length labels]. labels ! j \<noteq> int k"
    using assms by (auto simp: in_set_conv_nth)
  then show ?thesis
    unfolding group_rows_def by (simp add: filter_empty_conv)
qed

lemma routed_group_absent:
  assumes "int k \<notin> set labels"
  shows "routed_group labels k x = map_nest (\<lambda>_. Arr [Arr []]) x"
  by (simp add: routed_group_def group_rows_absent [OF assms] take_rows_def)

lemma zeros_like_zero_rows:
  "zeros_like (map_nest (\<lambda>_. Arr [Arr []]) x) = map_nest (\<lambda>_. Arr [Arr []]) x"
  by (simp add: zeros_like_def nest.map_comp comp_def)

text \<open>
  Where every field of the batch has a leaf, a group without rows is trained like any
  other. On such a valid batch in which no row is recorded for sub-agent \<open>k\<close>, training
  succeeds and is the same sequence of \<open>N\<close> calls; the call for \<open>k\<close> is made, on a
  trajectory whose leaves all have zero rows (under the one leading batch dimension),
  and the loss it returns is one of the \<open>N\<close> losses summed.
\<close>

lemma train_zero_row_group:
  assumes "StaticMixtureAgent_init mw agents = Inr self"
    and "valid_batch self e labels"
    and "k < length agents"
    and "int k \<notin> set labels"
  shows "\<exists>lis w'.
           run_calls (map (\<lambda>i. (agents ! i, routed_experience labels i e)) [0..<length agents]) w
             = (lis, w')
           \<and> StaticMixtureAgent_train self e weights w
               = Inr (\<lparr>loss = foldl (+) 0 (map loss lis), extra = ()\<rparr>, w')
           \<and> length lis = length agents
           \<and> lis ! k = fst (train (agents ! k) (routed_experience labels k e)
                           (snd (run_calls (map (\<lambda>i. (agents ! i, routed_experience labels i e))
                                               [0..<k]) w)))
           \<and> (\<forall>x \<in> {observation (routed_experience labels k e),
                       action (routed_experience labels k e),
                       policy_info (routed_experience labels k e),
                       reward (routed_experience labels k e),
                       discount (routed_experience labels k e)}.
                 \<forall>leaf \<in> set (flatten x). leaf = Arr [Arr []])"
proof -
  let ?calls = "map (\<lambda>i. (agents ! i, routed_experience labels i e)) [0..<length agents]"
  have tr: "StaticMixtureAgent_train self e weights w = Inr (finish (run_calls ?calls w))"
    using assms(1,2) by (rule train_constructed)
  obtain lis w' where r: "run_calls ?calls w = (lis, w')"
    by (cases "run_calls ?calls w")
  from length_run_calls [of ?calls w] r have len: "length lis = length agents"
    by simp
  from tr r have t: "StaticMixtureAgent_train self e weights w
               = Inr (\<lparr>loss = foldl (+) 0 (map loss lis), extra = ()\<rparr>, w')"
    by (simp add: finish_def)
  from assms(3) have k: "k < length ?calls" by simp
  have "take k ?calls = map (\<lambda>i. (agents ! i, routed_experience labels i e)) [0..<k]"
    using assms(3) by (simp add: take_map)
  with run_calls_nth [OF k, of w] r assms(3)
  have nth: "lis ! k = fst (train (agents ! k) (routed_experience labels k e)
      (snd (run_calls (map (\<lambda>i. (agents ! i, routed_experience labels i e)) [0..<k]) w)))"
    by simp
  have zero: "\<forall>x \<in> {observation (routed_experience labels k e),
                       action (routed_experience labels k e),
                       policy_info (routed_experience labels k e),
                       reward (routed_experience labels k e),
                       discount (routed_experience labels k e)}.
                 \<forall>leaf \<in> set (flatten x). leaf = Arr [Arr []]"
    by (auto simp: routed_experience_def single_step_def routed_group_absent [OF assms(4)]
        zeros_like_zero_rows flatten_map_nest)
  from r t len nth zero show ?thesis by blast
qed

lemma three_agents_nth:
  "three_agents ! 0 = example_agent 0 3"
  "three_agents ! Suc 0 = example_agent 0 4"
  "three_agents ! Suc (Suc 0) = example_agent 0 5"
  "length three_agents = Suc (Suc (Suc 0))"
  by (simp_all add: three_agents_def)

lemma example_init_three:
  "StaticMixtureAgent_init [1, 1, 1] three_agents = Inr (example_coordinator three_agents)"
  by (simp add: three_agents_def init_Cons example_agent_sel example_coordinator_def)

lemma all_first_batch_labels:
  "batch_labels (example_batch all_first_ids) = Some all_first_labels"
  by (simp add: batch_labels_def example_batch_sel all_first_ids_def example_flat_rows
      all_first_labels_def)

lemma all_first_valid:
  "valid_batch (example_coordinator three_agents) (example_batch all_first_ids) all_first_labels"
  unfolding valid_batch_def valid_field_def all_first_batch_labels
  by (simp add: example_batch_sel example_coordinator_sel example_flat_rows tree_shape_def
      all_first_ids_def all_first_labels_def three_agents_nth)

lemma all_first_group_rows:
  "group_rows all_first_labels 0 = [0, 1, 2, 3]"
  "group_rows all_first_labels (Suc 0) = []"
  "group_rows all_first_labels (Suc (Suc 0)) = []"
  by code_simp+

lemma take_rows_Arr: "take_rows js (Arr rows) = Arr (map (\<lambda>j. rows ! j) js)"
  by (simp add: take_rows_def leading_rows_def)

lemma all_first_routed:
  "routed_experience all_first_labels 0 (example_batch all_first_ids)
     = single_step (Leaf (Arr [Arr [Scalar 1, Scalar 2, Scalar 3, Scalar 4]]))
         (Leaf (Arr [Arr [Scalar 0, Scalar 1, Scalar 1, Scalar 0]]))
         (Leaf (Arr [Arr [Scalar 5, Scalar 6, Scalar 7, Scalar 8]]))
         (Leaf (Arr [Arr [Scalar 10, Scalar 20, Scalar 30, Scalar 40]]))
         (Leaf (Arr [Arr [Scalar 0, Scalar 0, Scalar 0, Scalar 0]]))"
  "routed_experience all_first_labels (Suc 0) (example_batch all_first_ids)
     = single_step (Leaf (Arr [Arr []])) (Leaf (Arr [Arr []])) (Leaf (Arr [Arr []]))
         (Leaf (Arr [Arr []])) (Leaf (Arr [Arr []]))"
  "routed_experience all_first_labels (Suc (Suc 0)) (example_batch all_first_ids)
     = single_step (Leaf (Arr [Arr []])) (Leaf (Arr [Arr []])) (Leaf (Arr [Arr []]))
         (Leaf (Arr [Arr []])) (Leaf (Arr [Arr []]))"
  by (simp_all add: routed_experience_def routed_group_leaf example_batch_sel example_flat_rows
      all_first_group_rows take_rows_Arr zeros_like_def)

lemma all_first_run_calls:
  "run_calls (map (\<lambda>i. (three_agents ! i,
                        routed_experience all_first_labels i (example_batch all_first_ids)))
                [0..<length three_agents]) []
     = ([\<lparr>loss = 103, extra = ()\<rparr>, \<lparr>loss = 4, extra = ()\<rparr>, \<lparr>loss = 5, extra = ()\<rparr>],
        [1, 2, 3, 4])"
  by (simp add: three_agents_nth run_calls_Cons all_first_routed example_train_agent
      nest_values_def del: run_calls.simps(2))

lemma train_zero_row_group_example:
  "StaticMixtureAgent_init [1, 1, 1] three_agents = Inr (example_coordinator three_agents)
   \<and> valid_batch (example_coordinator three_agents) (example_batch all_first_ids)
       all_first_labels
   \<and> 1 < length three_agents
   \<and> int 1 \<notin> set all_first_labels
   \<and> StaticMixtureAgent_train (example_coordinator three_agents)
       (example_batch all_first_ids) (None :: unit option) []
       = Inr (\<lparr>loss = 112, extra = ()\<rparr>, [1, 2, 3, 4])"
proof -
  have k: "1 < length three_agents"
    by (simp add: three_agents_def)
  have absent: "int 1 \<notin> set all_first_labels"
    by (simp add: all_first_labels_def)
  from train_zero_row_group [OF example_init_three all_first_valid k absent,
      of "[]" "None :: unit option"]
  have "StaticMixtureAgent_train (example_coordinator three_agents)
       (example_batch all_first_ids) (None :: unit option) []
       = Inr (\<lparr>loss = 112, extra = ()\<rparr>, [1, 2, 3, 4])"
    unfolding all_first_run_calls by auto
  with example_init_three all_first_valid k absent show ?thesis by simp
qed

lemma recording_sel:
  "time_step_spec (recording k a) = time_step_spec a"
  "action_spec (recording k a) = action_spec a"
  "policy (recording k a) = policy a"
  "collect_policy (recording k a) = collect_policy a"
  "train (recording k a) e (w, lg) = (fst (train a e w), (snd (train a e w), lg @ [(k, e)]))"
  by (simp_all add: recording_def case_prod_unfold Let_def)

lemma recording_agents_nth:
  "k < length ags \<Longrightarrow> recording_agents ags ! k = recording k (ags ! k)"
  by (simp add: recording_agents_def)

lemma length_recording_agents: "length (recording_agents ags) = length ags"
  by (simp add: recording_agents_def)

lemma recording_coordinator_sel:
  "sma_time_step_spec (recording_coordinator self) = sma_time_step_spec self"
  "sma_action_spec (recording_coordinator self) = sma_action_spec self"
  "sma_original_info_spec (recording_coordinator self) = sma_original_info_spec self"
  "sma_agents (recording_coordinator self) = recording_agents (sma_agents self)"
  "sma_num_agents (recording_coordinator self) = sma_num_agents self"
  by (simp_all add: recording_coordinator_def)

lemma valid_batch_recording:
  "valid_batch (recording_coordinator self) e labels = valid_batch self e labels"
  by (simp add: valid_batch_def recording_coordinator_sel)

lemma run_calls_recording:
  "run_calls (map (\<lambda>k. (recording k (ags ! k), T k)) ks) (w, lg)
     = (fst (run_calls (map (\<lambda>k. (ags ! k, T k)) ks) w),
        (snd (run_calls (map (\<lambda>k. (ags ! k, T k)) ks) w), lg @ map (\<lambda>k. (k, T k)) ks))"
proof (induction ks arbitrary: w lg)
  case Nil
  show ?case by simp
next
  case (Cons k ks)
  show ?case
    by (simp add: run_calls_Cons recording_sel Cons.IH del: run_calls.simps(2))
qed

lemma tensor_values_map: "tensor_values (map_tensor f t) = map f (tensor_values t)"
  by (induction t) (simp_all add: map_concat comp_def cong: map_cong)

lemma nest_values_zeros_like: "v \<in> set (nest_values (zeros_like x)) \<Longrightarrow> v = 0"
  by (auto simp: nest_values_def zeros_like_def flatten_map_nest tensor_values_map)

lemma tensor_shapes_zeros_like: "tensor_shapes (zeros_like x) = tensor_shapes x"
  by (simp add: tensor_shapes_def zeros_like_def nest.map_comp tensor.map_comp comp_def)

lemma train_recorded:
  assumes "StaticMixtureAgent_init mw agents = Inr self"
    and "valid_batch self e labels"
  shows "StaticMixtureAgent_train (recording_coordinator self) e weights (w, lg)
           = Inr (fst (finish (run_calls
                    (map (\<lambda>k. (agents ! k, routed_experience labels k e)) [0..<length agents])
                    w)),
                  (snd (run_calls
                    (map (\<lambda>k. (agents ! k, routed_experience labels k e)) [0..<length agents])
                    w),
                   lg @ map (\<lambda>k. (k, routed_experience labels k e)) [0..<length agents]))"
proof -
  from init_InrD [OF assms(1)] have ags: "sma_agents self = agents"
    and num: "sma_num_agents self = length agents"
    by simp_all
  have n: "sma_num_agents (recording_coordinator self)
      = length (sma_agents (recording_coordinator self))"
    by (simp add: recording_coordinator_sel ags num length_recording_agents)
  have v: "valid_batch (recording_coordinator self) e labels"
    using assms(2) by (simp only: valid_batch_recording)
  have calls: "map (\<lambda>k. (recording_agents agents ! k, routed_experience labels k e))
        [0..<length agents]
      = map (\<lambda>k. (recording k (agents ! k), routed_experience labels k e)) [0..<length agents]"
    by (rule map_cong [OF refl]) (simp add: recording_agents_nth)
  show ?thesis
    unfolding train_valid [OF n v] recording_coordinator_sel ags num calls run_calls_recording
    by (simp add: finish_def)
qed

text \<open>
  Claim C6. On a valid batch, with every sub-agent recording what it is trained on, the
  \<open>k\<close>-th call is made to sub-agent \<open>k\<close>, on the single-step trajectory (first step to
  last step) of group \<open>k\<close>'s observation, action, sub-policy info and reward, whose
  discount has the shape of that reward and holds only zeros.
\<close>

theorem train_passes_single_step:
  assumes "StaticMixtureAgent_init mw agents = Inr self"
    and "valid_batch self e labels"
  shows "\<exists>r w' log.
           StaticMixtureAgent_train (recording_coordinator self) e weights (w, [])
             = Inr (r, (w', log))
           \<and> length log = length agents
           \<and> (\<forall>k<length agents.
                 fst (log ! k) = k
                 \<and> step_type (snd (log ! k)) = FIRST
                 \<and> next_step_type (snd (log ! k)) = LAST
                 \<and> observation (snd (log ! k)) = routed_group labels k (observation e)
                 \<and> action (snd (log ! k)) = routed_group labels k (action e)
                 \<and> policy_info (snd (log ! k))
                     = routed_group labels k (subpolicy_info (policy_info e))
                 \<and> reward (snd (log ! k)) = routed_group labels k (reward e)
                 \<and> tensor_shapes (discount (snd (log ! k)))
                     = tensor_shapes (reward (snd (log ! k)))
                 \<and> (\<forall>v \<in> set (nest_values (discount (snd (log ! k)))). v = 0))"
proof -
  let ?log = "map (\<lambda>k. (k, routed_experience labels k e)) [0..<length agents]"
  have t: "StaticMixtureAgent_train (recording_coordinator self) e weights (w, [])
           = Inr (fst (finish (run_calls
                    (map (\<lambda>k. (agents ! k, routed_experience labels k e)) [0..<length agents])
                    w)),
                  (snd (run_calls
                    (map (\<lambda>k. (agents ! k, routed_experience labels k e)) [0..<length agents])
                    w),
                   ?log))"
    using train_recorded [OF assms, of weights w "[]"] by simp
  have len: "length ?log = length agents" by simp
  have props: "fst (?log ! k) = k
                 \<and> step_type (snd (?log ! k)) = FIRST
                 \<and> next_step_type (snd (?log ! k)) = LAST
                 \<and> observation (snd (?log ! k)) = routed_group labels k (observation e)
                 \<and> action (snd (?log ! k)) = routed_group labels k (action e)
                 \<and> policy_info (snd (?log ! k))
                     = routed_group labels k (subpolicy_info (policy_info e))
                 \<and> reward (snd (?log ! k)) = routed_group labels k (reward e)
                 \<and> tensor_shapes (discount (snd (?log ! k)))
                     = tensor_shapes (reward (snd (?log ! k)))
                 \<and> (\<forall>v \<in> set (nest_values (discount (snd (?log ! k)))). v = 0)"
    if "k < length agents" for k
    using that
    by (simp add: routed_experience_def single_step_def tensor_shapes_zeros_like
        nest_values_zeros_like)
  from t len props show ?thesis by blast
qed

lemma map_nest_Leaf_D: "map_nest f x = Leaf y \<Longrightarrow> \<exists>z. x = Leaf z \<and> f z = y"
  by (cases x) auto

lemma map_tensor_Arr_D:
  "map_tensor f t = Arr ys \<Longrightarrow> \<exists>ts. t = Arr ts \<and> map (map_tensor f) ts = ys"
  by (cases t) auto

lemma map_tensor_Scalar_D: "map_tensor f t = Scalar y \<Longrightarrow> \<exists>v. t = Scalar v \<and> f v = y"
  by (cases t) auto

lemma shape_of_pair_row:
  assumes "tensor_shapes x = tensor_shapes (Leaf (Arr [Arr [Scalar p, Scalar q]]))"
  shows "\<exists>a b. x = Leaf (Arr [Arr [Scalar a, Scalar b]])"
proof -
  from assms have "map_nest (map_tensor (\<lambda>_. ())) x = Leaf (Arr [Arr [Scalar (), Scalar ()]])"
    by (simp add: tensor_shapes_def)
  then obtain t where x: "x = Leaf t"
    and t: "map_tensor (\<lambda>_. ()) t = Arr [Arr [Scalar (), Scalar ()]]"
    by (blast dest: map_nest_Leaf_D)
  from t obtain ts where ts: "t = Arr ts"
    and m: "map (map_tensor (\<lambda>_. ())) ts = [Arr [Scalar (), Scalar ()]]"
    by (blast dest: map_tensor_Arr_D)
  from m obtain row where row: "ts = [row]"
    and r: "map_tensor (\<lambda>_. ()) row = Arr [Scalar (), Scalar ()]"
    by (auto simp: map_eq_Cons_conv)
  from r obtain vs where vs: "row = Arr vs"
    and mv: "map (map_tensor (\<lambda>_. ())) vs = [Scalar (), Scalar ()]"
    by (blast dest: map_tensor_Arr_D)
  from mv obtain u v where uv: "vs = [u, v]"
    and "map_tensor (\<lambda>_. ()) u = Scalar ()" and "map_tensor (\<lambda>_. ()) v = Scalar ()"
    by (auto simp: map_eq_Cons_conv)
  then obtain a b where "u = Scalar a" "v = Scalar b"
    by (blast dest: map_tensor_Scalar_D)
  with x ts row vs uv show ?thesis by simp
qed

theorem train_passes_single_step_witness:
  "StaticMixtureAgent_init [1, 1] [example_agent 0 3, example_agent 0 4]
     = Inr (example_coordinator [example_agent 0 3, example_agent 0 4])
   \<and> valid_batch (example_coordinator [example_agent 0 3, example_agent 0 4])
       (example_batch alternating_ids) example_labels
   \<and> (\<exists>r w' log.
         StaticMixtureAgent_train
           (recording_coordinator (example_coordinator [example_agent 0 3, example_agent 0 4]))
           (example_batch alternating_ids) (None :: unit option) ([], []) = Inr (r, (w', log))
         \<and> length log = 2
         \<and> reward (snd (log ! 1)) = Leaf (Arr [Arr [Scalar 20, Scalar 40]])
         \<and> discount (snd (log ! 1)) = Leaf (Arr [Arr [Scalar 0, Scalar 0]]))"
proof -
  from train_passes_single_step [OF example_init example_valid, of "None :: unit option" "[]"]
  obtain r w' log where t: "StaticMixtureAgent_train
           (recording_coordinator (example_coordinator [example_agent 0 3, example_agent 0 4]))
           (example_batch alternating_ids) (None :: unit option) ([], []) = Inr (r, (w', log))"
    and len: "length log = length [example_agent 0 3, example_agent 0 4]"
    and props: "\<forall>k<length [example_agent 0 3, example_agent 0 4].
        reward (snd (log ! k)) = routed_group example_labels k (reward (example_batch alternating_ids))
        \<and> tensor_shapes (discount (snd (log ! k))) = tensor_shapes (reward (snd (log ! k)))
        \<and> (\<forall>v \<in> set (nest_values (discount (snd (log ! k)))). v = 0)"
    by blast
  have "(1::nat) < length [example_agent 0 3, example_agent 0 4]" by simp
  with props have p1: "reward (snd (log ! 1))
          = routed_group example_labels 1 (reward (example_batch alternating_ids))
        \<and> tensor_shapes (discount (snd (log ! 1))) = tensor_shapes (reward (snd (log ! 1)))
        \<and> (\<forall>v \<in> set (nest_values (discount (snd (log ! 1)))). v = 0)"
    by blast
  from p1 have rew: "reward (snd (log ! 1)) = Leaf (Arr [Arr [Scalar 20, Scalar 40]])"
    by (simp add: routed_group_leaf example_batch_sel example_flat_rows
        example_group_rows_Suc take_rows_pair)
  from p1 have shape: "tensor_shapes (discount (snd (log ! 1)))
      = tensor_shapes (reward (snd (log ! 1)))"
    by (elim conjE)
  from p1 have zero: "\<forall>v \<in> set (nest_values (discount (snd (log ! 1)))). v = 0"
    by (elim conjE)
  from shape obtain a b where d: "discount (snd (log ! 1)) = Leaf (Arr [Arr [Scalar a, Scalar b]])"
    unfolding rew by (blast dest: shape_of_pair_row)
  from zero have "a = 0" "b = 0"
    unfolding d by (simp_all add: nest_values_def)
  with d have "discount (snd (log ! 1)) = Leaf (Arr [Arr [Scalar 0, Scalar 0]])" by simp
  with t len rew example_init example_valid show ?thesis by auto
qed

lemma outcome_ebind:
  assumes "\<And>x. map_sum id h (f x) = map_sum id h (g x)"
  shows "map_sum id h (ebind m f) = map_sum id h (ebind m g)"
  using assms by (cases m) (simp_all add: ebind_def)

lemma train_loop_recording_log:
  "map_sum id (\<lambda>r. snd (snd r))
     (train_loop (recording_agents ags) obs act infos rews ks l1 (w1, lg))
   = map_sum id (\<lambda>r. snd (snd r))
     (train_loop (recording_agents ags) obs act infos rews ks l2 (w2, lg))"
proof (induction ks arbitrary: l1 l2 w1 w2 lg)
  case Nil
  show ?case by simp
next
  case (Cons k ks)
  show ?case
  proof (cases "k < length ags")
    case True
    then have a: "getitem (recording_agents ags) k = Inr (recording k (ags ! k))"
      by (simp add: getitem_def length_recording_agents recording_agents_nth)
    show ?thesis
      unfolding train_loop.simps
      by (intro outcome_ebind)
        (simp add: a ebind_def Let_def recording_sel Cons.IH)
  next
    case False
    then have a: "getitem (recording_agents ags) k = Inl IndexError"
      by (simp add: getitem_def length_recording_agents)
    show ?thesis
      unfolding train_loop.simps
      by (intro outcome_ebind) (simp add: a ebind_def Let_def)
  qed
qed

lemma train_loop_recording_outcome:
  "map_sum id (\<lambda>r. snd (snd r))
     (ebind (train_loop (recording_agents ags) obs act infos rews ks l1 (w1, lg))
        (\<lambda>(l, w'). Inr (\<lparr>loss = l, extra = ()\<rparr>, w')))
   = map_sum id (\<lambda>r. snd (snd r))
     (ebind (train_loop (recording_agents ags) obs act infos rews ks l2 (w2, lg))
        (\<lambda>(l, w'). Inr (\<lparr>loss = l, extra = ()\<rparr>, w')))"
  using train_loop_recording_log [of ags obs act infos rews ks l1 w1 lg l2 w2]
  by (cases "train_loop (recording_agents ags) obs act infos rews ks l1 (w1, lg)";
      cases "train_loop (recording_agents ags) obs act infos rews ks l2 (w2, lg)")
    (auto simp: ebind_def)

text \<open>
  Claim C8. With every sub-agent recording its index and the trajectory it is trained
  on, two executions of training on the same batch end alike: both fail with the same
  error, or both succeed with the same log, whatever the states they start from (on
  which the sub-agents' own training may depend) and whatever the weights argument. The
  log holds, call by call, the group of every field.
\<close>

theorem train_groupings_deterministic:
  "map_sum id (\<lambda>r. snd (snd r))
     (StaticMixtureAgent_train (recording_coordinator self) e weights1 (w1, lg))
   = map_sum id (\<lambda>r. snd (snd r))
     (StaticMixtureAgent_train (recording_coordinator self) e weights2 (w2, lg))"
  unfolding StaticMixtureAgent_train_def Let_def recording_coordinator_sel
  by (intro outcome_ebind train_loop_recording_outcome)

text \<open>
  Claim C10. Training does not depend on its weights argument: with any two values of
  it, the result (the error, or the loss and the final state) is the same.
\<close>

theorem train_ignores_weights:
  "StaticMixtureAgent_train self e weights1 w = StaticMixtureAgent_train self e weights2 w"
  by (simp add: StaticMixtureAgent_train_def)

lemma ebind_Inl: "ebind (Inl err) f = Inl err"
  by (simp add: ebind_def)

lemma train_loop_no_info:
  assumes "0 < length obs" and "0 < length act"
  shows "train_loop ags obs act [] rews (0 # ks) l w = Inl IndexError"
  using assms by (simp add: getitem_def ebind_Inr ebind_Inl)

text \<open>
  The consequence of the missing groups for training. When the sub-policy info has no
  leaf (the sub-agents' policies emit no info) and there is at least one sub-agent, the
  partition of the info has no group, and the first iteration of the loop fails when it
  indexes it, before any sub-agent is trained: this holds for every batch whose other
  fields are valid.
\<close>

lemma train_leafless_info:
  assumes agents: "0 < sma_num_agents self"
    and labels: "batch_labels e = Some labels"
    and shape: "tree_shape (mixture_agent_id (policy_info e))
         = tree_shape (ts_reward (sma_time_step_spec self))"
    and range: "\<forall>p \<in> set labels. 0 \<le> p \<and> p < int (sma_num_agents self)"
    and rew: "valid_field (reward e) (ts_reward (sma_time_step_spec self)) (length labels)"
    and act: "valid_field (action e) (sma_action_spec self) (length labels)"
    and obs: "valid_field (observation e) (ts_observation (sma_time_step_spec self))
         (length labels)"
    and info_shape: "tree_shape (subpolicy_info (policy_info e))
         = tree_shape (sma_original_info_spec self)"
    and leafless: "flatten (subpolicy_info (policy_info e)) = []"
  shows "StaticMixtureAgent_train self e weights w = Inl IndexError"
proof -
  let ?n = "sma_num_agents self"
  let ?obs = "map (\<lambda>k. routed_group labels k (observation e)) [0..<?n]"
  let ?act = "map (\<lambda>k. routed_group labels k (action e)) [0..<?n]"
  let ?rew = "map (\<lambda>k. routed_group labels k (reward e)) [0..<?n]"
  have info: "flatten_multi_batched_nested_tensors (subpolicy_info (policy_info e))
        (sma_original_info_spec self)
      = Inr (map_nest (\<lambda>leaf. Arr (flat_rows leaf)) (subpolicy_info (policy_info e)))"
    using info_shape by (rule flatten_multi_valid) (simp add: leafless)
  have none: "dynamic_partition_of_nested_tensors
        (map_nest (\<lambda>leaf. Arr (flat_rows leaf)) (subpolicy_info (policy_info e))) q ?n = Inr []"
    for q
    by (rule nested_partition_leafless) (simp add: flatten_map_nest leafless)
  have pre: "StaticMixtureAgent_train self e weights w
      = ebind (train_loop (sma_agents self) ?obs ?act [] ?rew [0..<?n] 0 w)
          (\<lambda>(l, w'). Inr (\<lparr>loss = l, extra = ()\<rparr>, w'))"
    unfolding StaticMixtureAgent_train_def
    by (simp only: flatten_multi_field [OF rew] flatten_multi_field [OF act]
        flatten_multi_field [OF obs] info none
        policy_choice_valid [OF labels shape] ebind_Inr
        partition_field [OF rew range] partition_field [OF act range]
        partition_field [OF obs range]
        Let_def batch_groups list.map)
  from agents have first: "[0..<?n] = 0 # [Suc 0..<?n]"
    by (simp add: upt_conv_Cons)
  have "train_loop (sma_agents self) ?obs ?act [] ?rew [0..<?n] 0 w
      = train_loop (sma_agents self) ?obs ?act [] ?rew (0 # [Suc 0..<?n]) 0 w"
    by (simp only: first [symmetric])
  also have "\<dots> = Inl IndexError"
    by (rule train_loop_no_info) (simp_all add: agents)
  finally have "train_loop (sma_agents self) ?obs ?act [] ?rew [0..<?n] 0 w = Inl IndexError" .
  then show ?thesis
    unfolding pre by (simp add: ebind_Inl)
qed


lemma leafless_info_coordinator_sel:
  "sma_time_step_spec (leafless_info_coordinator ags)
     = \<lparr>ts_step_type = Leaf 0, ts_reward = Leaf 0, ts_discount = Leaf 0, ts_observation = Leaf 0\<rparr>"
  "sma_action_spec (leafless_info_coordinator ags) = Leaf 0"
  "sma_original_info_spec (leafless_info_coordinator ags) = Node []"
  "sma_agents (leafless_info_coordinator ags) = ags"
  "sma_num_agents (leafless_info_coordinator ags) = length ags"
  by (simp_all add: leafless_info_coordinator_def)

lemma leafless_info_sel:
  "time_step_spec (leafless_info_agent c)
     = \<lparr>ts_step_type = Leaf 0, ts_reward = Leaf 0, ts_discount = Leaf 0, ts_observation = Leaf 0\<rparr>"
  "action_spec (leafless_info_agent c) = Leaf 0"
  "policy (leafless_info_agent c) = \<lparr>info_spec = Node []\<rparr>"
  by (simp_all add: leafless_info_agent_def)

lemma leafless_info_batch_sel:
  "observation (leafless_info_batch ids)
     = Leaf (Arr [Arr [Scalar 1, Scalar 2], Arr [Scalar 3, Scalar 4]])"
  "action (leafless_info_batch ids)
     = Leaf (Arr [Arr [Scalar 0, Scalar 1], Arr [Scalar 1, Scalar 0]])"
  "mixture_agent_id (policy_info (leafless_info_batch ids)) = ids"
  "subpolicy_info (policy_info (leafless_info_batch ids)) = Node []"
  "reward (leafless_info_batch ids)
     = Leaf (Arr [Arr [Scalar 10, Scalar 20], Arr [Scalar 30, Scalar 40]])"
  by (simp_all add: leafless_info_batch_def)

text \<open>
  Claim C1 (on every valid batch each of the N sub-agents is trained once, on its rows,
  and the sum of the losses is returned) fails for sub-agents whose policy emits no
  info. The constructor accepts two such sub-agents; the batch of four transitions with
  recorded indices 0, 1, 0, 1 has the shape of the specs, with a sub-policy info without
  leaves; training raises an \<open>IndexError\<close> and no sub-agent is trained.
\<close>

theorem train_fails_on_leafless_info:
  "StaticMixtureAgent_init [1, 1] [leafless_info_agent 3, leafless_info_agent 4]
     = Inr (leafless_info_coordinator [leafless_info_agent 3, leafless_info_agent 4])
   \<and> StaticMixtureAgent_train
         (leafless_info_coordinator [leafless_info_agent 3, leafless_info_agent 4])
         (leafless_info_batch alternating_ids) (None :: unit option) []
       = Inl IndexError"
proof -
  let ?self = "leafless_info_coordinator [leafless_info_agent 3, leafless_info_agent 4]"
  have i: "StaticMixtureAgent_init [1, 1] [leafless_info_agent 3, leafless_info_agent 4]
      = Inr ?self"
    by (simp add: init_Cons leafless_info_sel leafless_info_coordinator_def)
  have l: "batch_labels (leafless_info_batch alternating_ids) = Some example_labels"
    by (simp add: batch_labels_def leafless_info_batch_sel alternating_ids_def example_flat_rows
        example_labels_def)
  have "StaticMixtureAgent_train ?self (leafless_info_batch alternating_ids)
      (None :: unit option) [] = Inl IndexError"
    by (rule train_leafless_info [OF _ l])
      (simp_all add: leafless_info_coordinator_sel leafless_info_batch_sel valid_field_def
        example_flat_rows tree_shape_def alternating_ids_def example_labels_def)
  with i show ?thesis by simp
qed

text \<open>
  Claim C7 (a sub-agent that receives zero rows is still trained, on a zero-row record,
  and its loss is summed) fails for sub-agents whose policy emits no info. With three
  such sub-agents and every row recorded for the first, the second and third receive
  zero rows; training raises an \<open>IndexError\<close> in its first iteration, and neither of
  them is trained.
\<close>

theorem train_zero_row_group_fails_on_leafless_info:
  "StaticMixtureAgent_init [1, 1, 1]
       [leafless_info_agent 3, leafless_info_agent 4, leafless_info_agent 5]
     = Inr (leafless_info_coordinator
              [leafless_info_agent 3, leafless_info_agent 4, leafless_info_agent 5])
   \<and> int 1 \<notin> set all_first_labels
   \<and> batch_labels (leafless_info_batch all_first_ids) = Some all_first_labels
   \<and> StaticMixtureAgent_train
         (leafless_info_coordinator
            [leafless_info_agent 3, leafless_info_agent 4, leafless_info_agent 5])
         (leafless_info_batch all_first_ids) (None :: unit option) []
       = Inl IndexError"
proof -
  let ?self = "leafless_info_coordinator
      [leafless_info_agent 3, leafless_info_agent 4, leafless_info_agent 5]"
  have i: "StaticMixtureAgent_init [1, 1, 1]
        [leafless_info_agent 3, leafless_info_agent 4, leafless_info_agent 5] = Inr ?self"
    by (simp add: init_Cons leafless_info_sel leafless_info_coordinator_def)
  have l: "batch_labels (leafless_info_batch all_first_ids) = Some all_first_labels"
    by (simp add: batch_labels_def leafless_info_batch_sel all_first_ids_def example_flat_rows
        all_first_labels_def)
  have absent: "int 1 \<notin> set all_first_labels"
    by (simp add: all_first_labels_def)
  have "StaticMixtureAgent_train ?self (leafless_info_batch all_first_ids)
      (None :: unit option) [] = Inl IndexError"
    by (rule train_leafless_info [OF _ l])
      (simp_all add: leafless_info_coordinator_sel leafless_info_batch_sel valid_field_def
        example_flat_rows tree_shape_def all_first_ids_def all_first_labels_def)
  with i l absent show ?thesis by simp
qed

end
